theory Spec2Isabelle
  imports Main "HOL-Library.Word"
begin

unbundle bit_operations_syntax

section \<open>The NES core module: four source variants\<close>

text \<open>
  The repository holds four near-duplicate variants of one WebAssembly module:
  \<^item> \<^verbatim>\<open>zero-imports.c\<close> (suffix \<open>_zi\<close>): synthetic palette, linear renderer;
  \<^item> \<^verbatim>\<open>nes-standalone.c\<close> (suffix \<open>_ns\<close>): NES palette, palette-indexed renderer;
  \<^item> \<^verbatim>\<open>fceux-zero-imports.c\<close> (suffix \<open>_fz\<close>): as above plus PRG/CHR metadata, the
    \<open>running\<close> flag and the mapper overlay;
  \<^item> \<^verbatim>\<open>fceux-simple.c\<close> (suffix \<open>_fs\<close>): libc based, strict size validation, mapper
    dependent renderer gated on \<open>running\<close>.
  Every exported function has the same name in all four files, so the models carry the
  variant's suffix; file-local helpers with a unique name keep it.

  Static arrays are memory regions indexed by byte offset (\<open>nat \<Rightarrow> 8 word\<close>): the code
  only ever reads and writes offsets inside the declared size, which the loop bounds of
  the models show. C \<open>int\<close> and \<open>unsigned int\<close> are \<open>32 word\<close>; signed comparisons are
  written \<open><s\<close>. Loop counters run over small constant ranges and are \<open>nat\<close>. A
  parameter called \<open>size\<close> in the source is \<open>sz\<close> here.
  \<open>printf\<close> output of \<^verbatim>\<open>fceux-simple.c\<close> is not part of the module state and is left out.
\<close>

type_synonym u8 = "8 word"
type_synonym u32 = "32 word"
type_synonym bytes = "nat \<Rightarrow> u8"

subsection \<open>Loops\<close>

text \<open>\<^verbatim>\<open>for (i = i0; i < n; i++) body\<close> as a recursive function over the loop state.\<close>

function for_upto :: "nat \<Rightarrow> nat \<Rightarrow> (nat \<Rightarrow> 'a \<Rightarrow> 'a) \<Rightarrow> 'a \<Rightarrow> 'a" where
  "for_upto i n body s = (if i < n then for_upto (Suc i) n body (body i s) else s)"
  by pat_completeness auto
termination
  by (relation "measure (\<lambda>(i, n, body, s). n - i)") auto

declare for_upto.simps [simp del]

text \<open>
  \<^verbatim>\<open>for (int i = 3; i < sizeof(frame_buffer); i += 4) frame_buffer[i] = 255;\<close>
  The loop occurs verbatim in all four files; \<open>set_alpha i fb\<close> is the loop entered with
  counter \<open>i\<close>.
\<close>

function set_alpha :: "nat \<Rightarrow> bytes \<Rightarrow> bytes" where
  "set_alpha i fb = (if i < 245760 then set_alpha (i + 4) (fb(i := 255)) else fb)"
  by pat_completeness auto
termination
  by (relation "measure (\<lambda>(i, fb). 245760 - i)") auto

declare set_alpha.simps [simp del]

text \<open>The four stores that end every pixel's loop body.\<close>

definition put_pixel :: "bytes \<Rightarrow> nat \<Rightarrow> u8 \<times> u8 \<times> u8 \<Rightarrow> bytes" where
  "put_pixel fb idx = (\<lambda>(r, g, b).
     fb(idx + 0 := r, idx + 1 := g, idx + 2 := b, idx + 3 := 255))"

text \<open>
  The controller effects, the same six statements in \<^verbatim>\<open>zero-imports.c\<close>,
  \<^verbatim>\<open>nes-standalone.c\<close> and \<^verbatim>\<open>fceux-zero-imports.c\<close>. A channel is promoted to \<open>int\<close>,
  changed, masked with 255 and stored back into an \<open>unsigned char\<close>.
\<close>

definition controller_effects :: "u32 \<Rightarrow> u8 \<times> u8 \<times> u8 \<Rightarrow> u8 \<times> u8 \<times> u8" where
  "controller_effects ctl = (\<lambda>(r0, g0, b0).
     let r1 = (if ctl AND 1 \<noteq> 0 then ucast (((ucast r0 :: u32) + 64) AND 255) else r0);
         r2 = (if ctl AND 2 \<noteq> 0 then ucast (((ucast r1 :: u32) - 32) AND 255) else r1);
         g1 = (if ctl AND 4 \<noteq> 0 then ucast (((ucast g0 :: u32) + 64) AND 255) else g0);
         g2 = (if ctl AND 8 \<noteq> 0 then ucast (((ucast g1 :: u32) - 32) AND 255) else g1);
         b1 = (if ctl AND 128 \<noteq> 0 then ucast (((ucast b0 :: u32) + 128) AND 255) else b0);
         b2 = (if ctl AND 64 \<noteq> 0 then ucast (((ucast b1 :: u32) + 96) AND 255) else b1)
     in (r2, g2, b2))"

text \<open>What an exported call hands back to the host.\<close>

datatype region = FrameBufferRegion | PaletteRegion

datatype ret = RVoid | RInt u32 | RPtr region

datatype call =
    Init
  | LoadRom bytes u32
  | Frame
  | Reset
  | SetButton u32 u32
  | SetRunning u32
  | GetFrameBuffer
  | GetFrameBufferSize
  | GetPalette

text \<open>A host session: the calls are made in order, their results collected.\<close>

fun run :: "(call \<Rightarrow> 's \<Rightarrow> ret \<times> 's) \<Rightarrow> call list \<Rightarrow> 's \<Rightarrow> ret list \<times> 's" where
  "run exec [] s = ([], s)"
| "run exec (c # cs) s =
     (let (r, s') = exec c s; (rs, s'') = run exec cs s' in (r # rs, s''))"

subsection \<open>\<^verbatim>\<open>zero-imports.c\<close>\<close>

record zi_state =
  frame_buffer :: bytes
  nes_palette :: bytes
  rom_buffer :: bytes
  initialized :: u32
  rom_loaded :: u32
  controls :: u32
  frame_count :: u32
  rom_size :: u32

text \<open>Statics are zero before the first call.\<close>

definition uninit_zi :: zi_state where
  "uninit_zi = \<lparr>frame_buffer = (\<lambda>_. 0), nes_palette = (\<lambda>_. 0), rom_buffer = (\<lambda>_. 0),
     initialized = 0, rom_loaded = 0, controls = 0, frame_count = 0, rom_size = 0\<rparr>"

definition zero_mem :: "bytes \<Rightarrow> nat \<Rightarrow> bytes" where
  "zero_mem p sz = for_upto 0 sz (\<lambda>i p. p(i := 0)) p"

definition copy_mem :: "bytes \<Rightarrow> bytes \<Rightarrow> nat \<Rightarrow> bytes" where
  "copy_mem dst src sz = for_upto 0 sz (\<lambda>i d. d(i := src i)) dst"

definition init_palette_zi :: "zi_state \<Rightarrow> zi_state" where
  "init_palette_zi s = s\<lparr>nes_palette := for_upto 0 64 (\<lambda>i pal.
     pal(i * 4 + 0 := ucast ((of_nat i * 4 :: u32) AND 255),
         i * 4 + 1 := ucast ((of_nat i * 8 :: u32) AND 255),
         i * 4 + 2 := ucast ((of_nat i * 16 :: u32) AND 255),
         i * 4 + 3 := 255)) (nes_palette s)\<rparr>"

definition clear_frame_zi :: "zi_state \<Rightarrow> zi_state" where
  "clear_frame_zi s =
     (let s1 = s\<lparr>frame_buffer := zero_mem (frame_buffer s) 245760\<rparr>
      in s1\<lparr>frame_buffer := set_alpha 3 (frame_buffer s1)\<rparr>)"

definition pixel_zi :: "u32 \<Rightarrow> u32 \<Rightarrow> nat \<Rightarrow> nat \<Rightarrow> u8 \<times> u8 \<times> u8" where
  "pixel_zi fc ctl x y =
     (let r = ucast ((of_nat x + fc) AND 255);
          g = ucast ((of_nat y + fc) AND 255);
          b = ucast (((of_nat x + of_nat y) + fc) AND 255)
      in controller_effects ctl (r, g, b))"

definition render_frame :: "zi_state \<Rightarrow> zi_state" where
  "render_frame s0 =
     (let s = s0\<lparr>frame_count := frame_count s0 + 1\<rparr>
      in s\<lparr>frame_buffer :=
           for_upto 0 240 (\<lambda>y. for_upto 0 256 (\<lambda>x fb.
             put_pixel fb ((y * 256 + x) * 4) (pixel_zi (frame_count s) (controls s) x y)))
           (frame_buffer s)\<rparr>)"

definition init_zi :: "zi_state \<Rightarrow> u32 \<times> zi_state" where
  "init_zi s =
     (if initialized s \<noteq> 0 then (1, s)
      else
        let s = s\<lparr>frame_buffer := zero_mem (frame_buffer s) 245760\<rparr>;
            s = s\<lparr>nes_palette := zero_mem (nes_palette s) 256\<rparr>;
            s = s\<lparr>rom_buffer := zero_mem (rom_buffer s) 2097152\<rparr>;
            s = s\<lparr>controls := 0, frame_count := 0, rom_loaded := 0, rom_size := 0\<rparr>;
            s = init_palette_zi s;
            s = clear_frame_zi s
        in (1, s\<lparr>initialized := 1\<rparr>))"

definition loadRom_zi :: "bytes \<Rightarrow> u32 \<Rightarrow> zi_state \<Rightarrow> u32 \<times> zi_state" where
  "loadRom_zi rom_data sz s =
     (if initialized s = 0 \<or> sz <s 16 \<or> 2097152 < sz then (0, s)
      else if rom_data 0 \<noteq> 0x4E \<or> rom_data 1 \<noteq> 0x45 \<or>
              rom_data 2 \<noteq> 0x53 \<or> rom_data 3 \<noteq> 0x1A then (0, s)
      else
        let s = s\<lparr>rom_buffer := copy_mem (rom_buffer s) rom_data (unat sz)\<rparr>
        in (1, s\<lparr>rom_size := sz, rom_loaded := 1\<rparr>))"

definition frame_zi :: "zi_state \<Rightarrow> zi_state" where
  "frame_zi s = (if initialized s = 0 then s else render_frame s)"

definition reset_zi :: "zi_state \<Rightarrow> zi_state" where
  "reset_zi s = clear_frame_zi (s\<lparr>controls := 0, frame_count := 0\<rparr>)"

definition setButton_zi :: "u32 \<Rightarrow> u32 \<Rightarrow> zi_state \<Rightarrow> zi_state" where
  "setButton_zi button pressed s =
     (if button <s 0 \<or> 7 <s button then s
      else
        let mask = (push_bit (unat button) 1 :: u32)
        in if pressed \<noteq> 0 then s\<lparr>controls := controls s OR mask\<rparr>
           else s\<lparr>controls := controls s AND NOT mask\<rparr>)"

definition setRunning_zi :: "u32 \<Rightarrow> zi_state \<Rightarrow> zi_state" where
  "setRunning_zi running s = s"

definition getFrameBufferSize_zi :: u32 where
  "getFrameBufferSize_zi = 245760"

fun exec_zi :: "call \<Rightarrow> zi_state \<Rightarrow> ret \<times> zi_state" where
  "exec_zi Init s = (let (r, s') = init_zi s in (RInt r, s'))"
| "exec_zi (LoadRom rom_data sz) s = (let (r, s') = loadRom_zi rom_data sz s in (RInt r, s'))"
| "exec_zi Frame s = (RVoid, frame_zi s)"
| "exec_zi Reset s = (RVoid, reset_zi s)"
| "exec_zi (SetButton button pressed) s = (RVoid, setButton_zi button pressed s)"
| "exec_zi (SetRunning running) s = (RVoid, setRunning_zi running s)"
| "exec_zi GetFrameBuffer s = (RPtr FrameBufferRegion, s)"
| "exec_zi GetFrameBufferSize s = (RInt getFrameBufferSize_zi, s)"
| "exec_zi GetPalette s = (RPtr PaletteRegion, s)"

inductive reachable_zi :: "zi_state \<Rightarrow> bool" where
  start_zi: "reachable_zi uninit_zi"
| step_zi: "reachable_zi s \<Longrightarrow> reachable_zi (snd (exec_zi c s))"

subsection \<open>\<^verbatim>\<open>nes-standalone.c\<close>\<close>

record ns_state = zi_state +
  mapper :: u8

definition uninit_ns :: ns_state where
  "uninit_ns = \<lparr>frame_buffer = (\<lambda>_. 0), nes_palette = (\<lambda>_. 0), rom_buffer = (\<lambda>_. 0),
     initialized = 0, rom_loaded = 0, controls = 0, frame_count = 0, rom_size = 0,
     mapper = 0\<rparr>"

definition zero_memory :: "bytes \<Rightarrow> nat \<Rightarrow> bytes" where
  "zero_memory p sz = for_upto 0 sz (\<lambda>i p. p(i := 0)) p"

definition copy_memory :: "bytes \<Rightarrow> bytes \<Rightarrow> nat \<Rightarrow> bytes" where
  "copy_memory dest src sz = for_upto 0 sz (\<lambda>i d. d(i := src i)) dest"

definition colors :: "(u8 \<times> u8 \<times> u8) list" where
  "colors =
     [(84, 84, 84), (0, 30, 116), (8, 16, 144), (48, 0, 136),
      (68, 0, 100), (92, 0, 48), (84, 4, 0), (60, 24, 0),
      (32, 42, 0), (8, 58, 0), (0, 64, 0), (0, 60, 0),
      (0, 50, 60), (0, 0, 0), (0, 0, 0), (0, 0, 0),
      (152, 150, 152), (8, 76, 196), (48, 50, 236), (92, 30, 228),
      (136, 20, 176), (160, 20, 100), (152, 34, 32), (120, 60, 0),
      (84, 90, 0), (40, 114, 0), (8, 124, 0), (0, 118, 40),
      (0, 102, 120), (0, 0, 0), (0, 0, 0), (0, 0, 0),
      (236, 238, 236), (76, 154, 236), (120, 124, 236), (176, 98, 236),
      (228, 84, 236), (236, 88, 180), (236, 106, 100), (212, 136, 32),
      (160, 170, 0), (116, 196, 0), (76, 208, 32), (56, 204, 108),
      (56, 180, 204), (60, 60, 60), (0, 0, 0), (0, 0, 0),
      (236, 238, 236), (168, 204, 236), (188, 188, 236), (212, 178, 236),
      (236, 174, 236), (236, 174, 212), (236, 180, 176), (228, 196, 144),
      (204, 210, 120), (180, 222, 120), (168, 226, 144), (152, 226, 180),
      (160, 214, 228), (160, 162, 160), (0, 0, 0), (0, 0, 0)]"

definition init_palette_ns :: "ns_state \<Rightarrow> ns_state" where
  "init_palette_ns s = s\<lparr>nes_palette := for_upto 0 64 (\<lambda>i pal.
     pal(i * 4 + 0 := fst (colors ! i),
         i * 4 + 1 := fst (snd (colors ! i)),
         i * 4 + 2 := snd (snd (colors ! i)),
         i * 4 + 3 := 255)) (nes_palette s)\<rparr>"

definition clear_frame_ns :: "ns_state \<Rightarrow> ns_state" where
  "clear_frame_ns s =
     (let s1 = s\<lparr>frame_buffer := zero_memory (frame_buffer s) 245760\<rparr>
      in s1\<lparr>frame_buffer := set_alpha 3 (frame_buffer s1)\<rparr>)"

definition pixel_ns :: "bytes \<Rightarrow> u32 \<Rightarrow> u32 \<Rightarrow> nat \<Rightarrow> nat \<Rightarrow> u8 \<times> u8 \<times> u8" where
  "pixel_ns pal fc ctl x y =
     (let color_idx = unat (((of_nat (x div 8) + of_nat (y div 8)) + fc div 4) AND 63);
          r = pal (color_idx * 4 + 0);
          g = pal (color_idx * 4 + 1);
          b = pal (color_idx * 4 + 2)
      in controller_effects ctl (r, g, b))"

definition generate_frame :: "ns_state \<Rightarrow> ns_state" where
  "generate_frame s0 =
     (let s = s0\<lparr>frame_count := frame_count s0 + 1\<rparr>
      in s\<lparr>frame_buffer :=
           for_upto 0 240 (\<lambda>y. for_upto 0 256 (\<lambda>x fb.
             put_pixel fb ((y * 256 + x) * 4)
               (pixel_ns (nes_palette s) (frame_count s) (controls s) x y)))
           (frame_buffer s)\<rparr>)"

definition init_ns :: "ns_state \<Rightarrow> u32 \<times> ns_state" where
  "init_ns s =
     (if initialized s \<noteq> 0 then (1, s)
      else
        let s = s\<lparr>frame_buffer := zero_memory (frame_buffer s) 245760\<rparr>;
            s = s\<lparr>nes_palette := zero_memory (nes_palette s) 256\<rparr>;
            s = s\<lparr>rom_buffer := zero_memory (rom_buffer s) 2097152\<rparr>;
            s = s\<lparr>controls := 0, frame_count := 0, rom_loaded := 0, rom_size := 0,
                   mapper := 0\<rparr>;
            s = init_palette_ns s;
            s = clear_frame_ns s
        in (1, s\<lparr>initialized := 1\<rparr>))"

definition loadRom_ns :: "bytes \<Rightarrow> u32 \<Rightarrow> ns_state \<Rightarrow> u32 \<times> ns_state" where
  "loadRom_ns rom_data sz s =
     (if initialized s = 0 \<or> sz <s 16 \<or> 2097152 < sz then (0, s)
      else if rom_data 0 \<noteq> 0x4E \<or> rom_data 1 \<noteq> 0x45 \<or>
              rom_data 2 \<noteq> 0x53 \<or> rom_data 3 \<noteq> 0x1A then (0, s)
      else
        let flags6 = rom_data 6;
            flags7 = rom_data 7;
            s = s\<lparr>mapper := drop_bit 4 flags6 OR (flags7 AND 0xF0)\<rparr>;
            s = s\<lparr>rom_buffer := copy_memory (rom_buffer s) rom_data (unat sz)\<rparr>
        in (1, s\<lparr>rom_size := sz, rom_loaded := 1\<rparr>))"

definition frame_ns :: "ns_state \<Rightarrow> ns_state" where
  "frame_ns s = (if initialized s = 0 then s else generate_frame s)"

definition reset_ns :: "ns_state \<Rightarrow> ns_state" where
  "reset_ns s = clear_frame_ns (s\<lparr>controls := 0, frame_count := 0\<rparr>)"

definition setButton_ns :: "u32 \<Rightarrow> u32 \<Rightarrow> ns_state \<Rightarrow> ns_state" where
  "setButton_ns button pressed s =
     (if button <s 0 \<or> 7 <s button then s
      else
        let mask = (push_bit (unat button) 1 :: u32)
        in if pressed \<noteq> 0 then s\<lparr>controls := controls s OR mask\<rparr>
           else s\<lparr>controls := controls s AND NOT mask\<rparr>)"

definition setRunning_ns :: "u32 \<Rightarrow> ns_state \<Rightarrow> ns_state" where
  "setRunning_ns running s = s"

definition getFrameBufferSize_ns :: u32 where
  "getFrameBufferSize_ns = 245760"

fun exec_ns :: "call \<Rightarrow> ns_state \<Rightarrow> ret \<times> ns_state" where
  "exec_ns Init s = (let (r, s') = init_ns s in (RInt r, s'))"
| "exec_ns (LoadRom rom_data sz) s = (let (r, s') = loadRom_ns rom_data sz s in (RInt r, s'))"
| "exec_ns Frame s = (RVoid, frame_ns s)"
| "exec_ns Reset s = (RVoid, reset_ns s)"
| "exec_ns (SetButton button pressed) s = (RVoid, setButton_ns button pressed s)"
| "exec_ns (SetRunning running) s = (RVoid, setRunning_ns running s)"
| "exec_ns GetFrameBuffer s = (RPtr FrameBufferRegion, s)"
| "exec_ns GetFrameBufferSize s = (RInt getFrameBufferSize_ns, s)"
| "exec_ns GetPalette s = (RPtr PaletteRegion, s)"

inductive reachable_ns :: "ns_state \<Rightarrow> bool" where
  start_ns: "reachable_ns uninit_ns"
| step_ns: "reachable_ns s \<Longrightarrow> reachable_ns (snd (exec_ns c s))"

subsection \<open>\<^verbatim>\<open>fceux-zero-imports.c\<close>\<close>

record fz_state = ns_state +
  running :: u32
  prg_banks :: u8
  chr_banks :: u8
  has_chr_ram :: u32

definition uninit_fz :: fz_state where
  "uninit_fz = \<lparr>frame_buffer = (\<lambda>_. 0), nes_palette = (\<lambda>_. 0), rom_buffer = (\<lambda>_. 0),
     initialized = 0, rom_loaded = 0, controls = 0, frame_count = 0, rom_size = 0,
     mapper = 0, running = 0, prg_banks = 0, chr_banks = 0, has_chr_ram = 0\<rparr>"

definition my_memset :: "bytes \<Rightarrow> u32 \<Rightarrow> nat \<Rightarrow> bytes" where
  "my_memset dest val len = for_upto 0 len (\<lambda>i ptr. ptr(i := ucast val)) dest"

definition my_memcpy :: "bytes \<Rightarrow> bytes \<Rightarrow> nat \<Rightarrow> bytes" where
  "my_memcpy dest src len = for_upto 0 len (\<lambda>i d. d(i := src i)) dest"

definition palette_data :: "(u8 \<times> u8 \<times> u8) list" where
  "palette_data =
     [(84, 84, 84), (0, 30, 116), (8, 16, 144), (48, 0, 136),
      (68, 0, 100), (92, 0, 48), (84, 4, 0), (60, 24, 0),
      (32, 42, 0), (8, 58, 0), (0, 64, 0), (0, 60, 0),
      (0, 50, 60), (0, 0, 0), (0, 0, 0), (0, 0, 0),
      (152, 150, 152), (8, 76, 196), (48, 50, 236), (92, 30, 228),
      (136, 20, 176), (160, 20, 100), (152, 34, 32), (120, 60, 0),
      (84, 90, 0), (40, 114, 0), (8, 124, 0), (0, 118, 40),
      (0, 102, 120), (0, 0, 0), (0, 0, 0), (0, 0, 0),
      (236, 238, 236), (76, 154, 236), (120, 124, 236), (176, 98, 236),
      (228, 84, 236), (236, 88, 180), (236, 106, 100), (212, 136, 32),
      (160, 170, 0), (116, 196, 0), (76, 208, 32), (56, 204, 108),
      (56, 180, 204), (60, 60, 60), (0, 0, 0), (0, 0, 0),
      (236, 238, 236), (168, 204, 236), (188, 188, 236), (212, 178, 236),
      (236, 174, 236), (236, 174, 212), (236, 180, 176), (228, 196, 144),
      (204, 210, 120), (180, 222, 120), (168, 226, 144), (152, 226, 180),
      (160, 214, 228), (160, 162, 160), (0, 0, 0), (0, 0, 0)]"

definition init_nes_palette :: "fz_state \<Rightarrow> fz_state" where
  "init_nes_palette s = s\<lparr>nes_palette := for_upto 0 64 (\<lambda>i pal.
     pal(i * 4 + 0 := fst (palette_data ! i),
         i * 4 + 1 := fst (snd (palette_data ! i)),
         i * 4 + 2 := snd (snd (palette_data ! i)),
         i * 4 + 3 := 255)) (nes_palette s)\<rparr>"

definition clear_frame_buffer :: "fz_state \<Rightarrow> fz_state" where
  "clear_frame_buffer s =
     (let s1 = s\<lparr>frame_buffer := my_memset (frame_buffer s) 0 245760\<rparr>
      in s1\<lparr>frame_buffer := set_alpha 3 (frame_buffer s1)\<rparr>)"

definition pixel_fz :: "bytes \<Rightarrow> u32 \<Rightarrow> u32 \<Rightarrow> u8 \<Rightarrow> u32 \<Rightarrow> nat \<Rightarrow> nat \<Rightarrow> u8 \<times> u8 \<times> u8" where
  "pixel_fz pal fc ctl mp chr_ram_flag x y =
     (let base_color = (ucast (((of_nat (x div 8) + of_nat (y div 8)) + fc div 4) AND 0x3F) :: u8);
          r = pal (unat base_color * 4 + 0);
          g = pal (unat base_color * 4 + 1);
          b = pal (unat base_color * 4 + 2);
          (r, g, b) = controller_effects ctl (r, g, b)
      in if mp = 2 \<and> chr_ram_flag \<noteq> 0 then
           (if ((of_nat x + of_nat y) :: u32) AND 8 \<noteq> 0 then
              (ucast (((ucast r :: u32) + 32) AND 0xFF), g,
               ucast (((ucast b :: u32) + 32) AND 0xFF))
            else (r, g, b))
         else (r, g, b))"

definition generate_nes_frame :: "fz_state \<Rightarrow> fz_state" where
  "generate_nes_frame s0 =
     (let s = s0\<lparr>frame_count := frame_count s0 + 1\<rparr>
      in s\<lparr>frame_buffer :=
           for_upto 0 240 (\<lambda>y. for_upto 0 256 (\<lambda>x fb.
             put_pixel fb ((y * 256 + x) * 4)
               (pixel_fz (nes_palette s) (frame_count s) (controls s) (mapper s)
                  (has_chr_ram s) x y)))
           (frame_buffer s)\<rparr>)"

definition init_fz :: "fz_state \<Rightarrow> u32 \<times> fz_state" where
  "init_fz s =
     (if initialized s \<noteq> 0 then (1, s)
      else
        let s = s\<lparr>frame_buffer := my_memset (frame_buffer s) 0 245760\<rparr>;
            s = s\<lparr>nes_palette := my_memset (nes_palette s) 0 256\<rparr>;
            s = s\<lparr>rom_buffer := my_memset (rom_buffer s) 0 2097152\<rparr>;
            s = s\<lparr>controls := 0, frame_count := 0, rom_loaded := 0, running := 0,
                   rom_size := 0\<rparr>;
            s = init_nes_palette s;
            s = clear_frame_buffer s
        in (1, s\<lparr>initialized := 1\<rparr>))"

definition loadRom_fz :: "bytes \<Rightarrow> u32 \<Rightarrow> fz_state \<Rightarrow> u32 \<times> fz_state" where
  "loadRom_fz rom_data sz s =
     (if initialized s = 0 then (0, s)
      else if sz <s 16 then (0, s)
      else if 2097152 <s sz then (0, s)
      else if rom_data 0 \<noteq> 0x4E \<or> rom_data 1 \<noteq> 0x45 \<or>
              rom_data 2 \<noteq> 0x53 \<or> rom_data 3 \<noteq> 0x1A then (0, s)
      else
        let s = s\<lparr>prg_banks := rom_data 4\<rparr>;
            s = s\<lparr>chr_banks := rom_data 5\<rparr>;
            flags6 = rom_data 6;
            flags7 = rom_data 7;
            s = s\<lparr>mapper := drop_bit 4 flags6 OR (flags7 AND 0xF0)\<rparr>;
            s = s\<lparr>has_chr_ram := (if chr_banks s = 0 then 1 else 0)\<rparr>
        in if prg_banks s = 0 then (0, s)
           else
             let s = s\<lparr>rom_buffer := my_memcpy (rom_buffer s) rom_data (unat sz)\<rparr>
             in (1, s\<lparr>rom_size := sz, rom_loaded := 1\<rparr>))"

definition frame_fz :: "fz_state \<Rightarrow> fz_state" where
  "frame_fz s = (if initialized s = 0 \<or> rom_loaded s = 0 then s else generate_nes_frame s)"

definition reset_fz :: "fz_state \<Rightarrow> fz_state" where
  "reset_fz s = clear_frame_buffer (s\<lparr>controls := 0, running := 0, frame_count := 0\<rparr>)"

definition setButton_fz :: "u32 \<Rightarrow> u32 \<Rightarrow> fz_state \<Rightarrow> fz_state" where
  "setButton_fz button pressed s =
     (if button <s 0 \<or> 7 <s button then s
      else
        let mask = (push_bit (unat button) 1 :: u32)
        in if pressed \<noteq> 0 then s\<lparr>controls := controls s OR mask\<rparr>
           else s\<lparr>controls := controls s AND NOT mask\<rparr>)"

definition setRunning_fz :: "u32 \<Rightarrow> fz_state \<Rightarrow> fz_state" where
  "setRunning_fz run_state s = s\<lparr>running := (if run_state \<noteq> 0 then 1 else 0)\<rparr>"

definition getFrameBufferSize_fz :: u32 where
  "getFrameBufferSize_fz = 245760"

fun exec_fz :: "call \<Rightarrow> fz_state \<Rightarrow> ret \<times> fz_state" where
  "exec_fz Init s = (let (r, s') = init_fz s in (RInt r, s'))"
| "exec_fz (LoadRom rom_data sz) s = (let (r, s') = loadRom_fz rom_data sz s in (RInt r, s'))"
| "exec_fz Frame s = (RVoid, frame_fz s)"
| "exec_fz Reset s = (RVoid, reset_fz s)"
| "exec_fz (SetButton button pressed) s = (RVoid, setButton_fz button pressed s)"
| "exec_fz (SetRunning run_state) s = (RVoid, setRunning_fz run_state s)"
| "exec_fz GetFrameBuffer s = (RPtr FrameBufferRegion, s)"
| "exec_fz GetFrameBufferSize s = (RInt getFrameBufferSize_fz, s)"
| "exec_fz GetPalette s = (RPtr PaletteRegion, s)"

inductive reachable_fz :: "fz_state \<Rightarrow> bool" where
  start_fz: "reachable_fz uninit_fz"
| step_fz: "reachable_fz s \<Longrightarrow> reachable_fz (snd (exec_fz c s))"

subsection \<open>\<^verbatim>\<open>fceux-simple.c\<close>\<close>

text \<open>
  The fields whose names the other variants already use carry the suffix \<open>_fs\<close>.
  \<open>palette\<close> is an array of 64 \<open>uint32_t\<close>, \<open>controls\<close> a \<open>uint8_t\<close>.
\<close>

record fs_state =
  rom_data :: bytes
  rom_size_fs :: u32
  frame_buffer_fs :: bytes
  chr_ram :: bytes
  prg_ram :: bytes
  palette :: "nat \<Rightarrow> u32"
  controls_fs :: u8
  initialized_fs :: u32
  rom_loaded_fs :: u32
  running_fs :: u32
  frame_count_fs :: u32
  prg_banks_fs :: u8
  chr_banks_fs :: u8
  mapper_fs :: u8
  has_chr_ram_fs :: u32
  has_trainer :: u32
  has_battery :: u32

definition uninit_fs :: fs_state where
  "uninit_fs = \<lparr>rom_data = (\<lambda>_. 0), rom_size_fs = 0, frame_buffer_fs = (\<lambda>_. 0),
     chr_ram = (\<lambda>_. 0), prg_ram = (\<lambda>_. 0), palette = (\<lambda>_. 0), controls_fs = 0,
     initialized_fs = 0, rom_loaded_fs = 0, running_fs = 0, frame_count_fs = 0,
     prg_banks_fs = 0, chr_banks_fs = 0, mapper_fs = 0, has_chr_ram_fs = 0,
     has_trainer = 0, has_battery = 0\<rparr>"

text \<open>The libc routines this variant links against, as the C standard specifies them.\<close>

definition memset :: "bytes \<Rightarrow> u32 \<Rightarrow> nat \<Rightarrow> bytes" where
  "memset p c n = (\<lambda>i. if i < n then ucast c else p i)"

definition memcpy :: "bytes \<Rightarrow> bytes \<Rightarrow> nat \<Rightarrow> bytes" where
  "memcpy dest src n = (\<lambda>i. if i < n then src i else dest i)"

definition init_fs :: "fs_state \<Rightarrow> u32 \<times> fs_state" where
  "init_fs s =
     (if initialized_fs s \<noteq> 0 then (1, s)
      else
        let s = s\<lparr>rom_data := memset (rom_data s) 0 2097152\<rparr>;
            s = s\<lparr>frame_buffer_fs := memset (frame_buffer_fs s) 0 245760\<rparr>;
            s = s\<lparr>chr_ram := memset (chr_ram s) 0 8192\<rparr>;
            s = s\<lparr>prg_ram := memset (prg_ram s) 0 8192\<rparr>;
            s = s\<lparr>frame_buffer_fs := set_alpha 3 (frame_buffer_fs s)\<rparr>;
            s = s\<lparr>palette := for_upto 0 64 (\<lambda>i pal.
                  let r = (ucast ((of_nat i * 4 :: u32) AND 0xFF) :: u8);
                      g = (ucast ((of_nat i * 8 :: u32) AND 0xFF) :: u8);
                      b = (ucast ((of_nat i * 16 :: u32) AND 0xFF) :: u8)
                  in pal(i := push_bit 24 0xFF OR push_bit 16 (ucast b) OR
                              push_bit 8 (ucast g) OR ucast r)) (palette s)\<rparr>;
            s = s\<lparr>controls_fs := 0, rom_loaded_fs := 0, running_fs := 0,
                   frame_count_fs := 0\<rparr>
        in (1, s\<lparr>initialized_fs := 1\<rparr>))"

definition loadRom_fs :: "bytes \<Rightarrow> u32 \<Rightarrow> fs_state \<Rightarrow> u32 \<times> fs_state" where
  "loadRom_fs rom sz s =
     (if initialized_fs s = 0 then (0, s)
      else if sz < 16 then (0, s)
      else if 2097152 < sz then (0, s)
      else if rom 0 \<noteq> 0x4E \<or> rom 1 \<noteq> 0x45 \<or> rom 2 \<noteq> 0x53 \<or> rom 3 \<noteq> 0x1A then (0, s)
      else
        let s = s\<lparr>prg_banks_fs := rom 4\<rparr>;
            s = s\<lparr>chr_banks_fs := rom 5\<rparr>;
            flags6 = rom 6;
            flags7 = rom 7;
            s = s\<lparr>mapper_fs := drop_bit 4 flags6 OR (flags7 AND 0xF0)\<rparr>;
            s = s\<lparr>has_trainer := (if flags6 AND 0x04 \<noteq> 0 then 1 else 0)\<rparr>;
            s = s\<lparr>has_battery := (if flags6 AND 0x02 \<noteq> 0 then 1 else 0)\<rparr>;
            s = s\<lparr>has_chr_ram_fs := (if chr_banks_fs s = 0 then 1 else 0)\<rparr>
        in if prg_banks_fs s = 0 then (0, s)
           else
             let expected_size = (16 :: u32);
                 expected_size =
                   (if has_trainer s \<noteq> 0 then expected_size + 512 else expected_size);
                 expected_size = expected_size + ucast (prg_banks_fs s) * 16384;
                 expected_size = expected_size + ucast (chr_banks_fs s) * 8192
             in if sz < expected_size then (0, s)
                else
                  let s = s\<lparr>rom_data := memcpy (rom_data s) rom (unat sz)\<rparr>;
                      s = s\<lparr>rom_size_fs := sz\<rparr>;
                      s = (if has_chr_ram_fs s \<noteq> 0
                           then s\<lparr>chr_ram := for_upto 0 8192 (\<lambda>i c.
                                  c(i := ucast ((of_nat i :: u32) AND 0xFF))) (chr_ram s)\<rparr>
                           else s)
                  in (1, s\<lparr>rom_loaded_fs := 1\<rparr>))"

text \<open>The three loop bodies of \<open>frame\<close>, one per mapper class.\<close>

definition nrom_pixel :: "u32 \<Rightarrow> nat \<Rightarrow> nat \<Rightarrow> bytes \<Rightarrow> bytes" where
  "nrom_pixel fc y x fb =
     (let index = (y * 256 + x) * 4
      in fb(index + 0 := ucast ((of_nat x + fc) AND 0xFF),
            index + 1 := 0x20,
            index + 2 := ucast ((of_nat y + fc) AND 0xFF),
            index + 3 := 255))"

definition unrom_pixel :: "fs_state \<Rightarrow> nat \<Rightarrow> nat \<Rightarrow> bytes \<Rightarrow> bytes" where
  "unrom_pixel s y x fb =
     (let index = (y * 256 + x) * 4;
          base_color = (if has_chr_ram_fs s \<noteq> 0 then chr_ram s ((x + y * 16) mod 8192)
                        else 0x40);
          fb = fb(index + 0 := 0x40);
          fb = fb(index + 1 := ucast (((ucast base_color :: u32) + frame_count_fs s) AND 0xFF));
          fb = fb(index + 2 := ucast (((of_nat x + of_nat y) + frame_count_fs s) AND 0xFF));
          fb = fb(index + 3 := 255);
          fb = (if controls_fs s AND 0x01 \<noteq> 0 then fb(index + 0 := fb (index + 0) + 64)
                else fb);
          fb = (if controls_fs s AND 0x02 \<noteq> 0 then fb(index + 1 := fb (index + 1) + 64)
                else fb);
          fb = (if controls_fs s AND 0x80 \<noteq> 0 then fb(index + 2 := fb (index + 2) + 64)
                else fb)
      in fb)"

definition other_pixel :: "u32 \<Rightarrow> nat \<Rightarrow> nat \<Rightarrow> bytes \<Rightarrow> bytes" where
  "other_pixel fc y x fb =
     (let index = (y * 256 + x) * 4
      in fb(index + 0 := ucast ((of_nat x * 2 + fc) AND 0xFF),
            index + 1 := ucast ((of_nat y * 2 + fc) AND 0xFF),
            index + 2 := 0x60,
            index + 3 := 255))"

definition frame_fs :: "fs_state \<Rightarrow> fs_state" where
  "frame_fs s0 =
     (if initialized_fs s0 = 0 \<or> rom_loaded_fs s0 = 0 \<or> running_fs s0 = 0 then s0
      else
        let s = s0\<lparr>frame_count_fs := frame_count_fs s0 + 1\<rparr>
        in if mapper_fs s = 0 then
             s\<lparr>frame_buffer_fs :=
                 for_upto 0 240 (\<lambda>y. for_upto 0 256 (nrom_pixel (frame_count_fs s) y))
                   (frame_buffer_fs s)\<rparr>
           else if mapper_fs s = 2 then
             s\<lparr>frame_buffer_fs :=
                 for_upto 0 240 (\<lambda>y. for_upto 0 256 (unrom_pixel s y)) (frame_buffer_fs s)\<rparr>
           else
             s\<lparr>frame_buffer_fs :=
                 for_upto 0 240 (\<lambda>y. for_upto 0 256 (other_pixel (frame_count_fs s) y))
                   (frame_buffer_fs s)\<rparr>)"

definition reset_fs :: "fs_state \<Rightarrow> fs_state" where
  "reset_fs s =
     (let s = s\<lparr>controls_fs := 0, frame_count_fs := 0\<rparr>;
          s = s\<lparr>frame_buffer_fs := memset (frame_buffer_fs s) 0 245760\<rparr>;
          s = s\<lparr>frame_buffer_fs := set_alpha 3 (frame_buffer_fs s)\<rparr>
      in if has_chr_ram_fs s \<noteq> 0 then s\<lparr>chr_ram := memset (chr_ram s) 0 8192\<rparr> else s)"

definition setButton_fs :: "u32 \<Rightarrow> u32 \<Rightarrow> fs_state \<Rightarrow> fs_state" where
  "setButton_fs button pressed s =
     (if button <s 0 \<or> 7 <s button then s
      else
        let mask = (ucast (push_bit (unat button) 1 :: u32) :: u8)
        in if pressed \<noteq> 0 then s\<lparr>controls_fs := controls_fs s OR mask\<rparr>
           else s\<lparr>controls_fs := controls_fs s AND NOT mask\<rparr>)"

definition setRunning_fs :: "u32 \<Rightarrow> fs_state \<Rightarrow> fs_state" where
  "setRunning_fs is_running s = s\<lparr>running_fs := is_running\<rparr>"

definition getFrameBufferSize_fs :: u32 where
  "getFrameBufferSize_fs = 245760"

fun exec_fs :: "call \<Rightarrow> fs_state \<Rightarrow> ret \<times> fs_state" where
  "exec_fs Init s = (let (r, s') = init_fs s in (RInt r, s'))"
| "exec_fs (LoadRom rom sz) s = (let (r, s') = loadRom_fs rom sz s in (RInt r, s'))"
| "exec_fs Frame s = (RVoid, frame_fs s)"
| "exec_fs Reset s = (RVoid, reset_fs s)"
| "exec_fs (SetButton button pressed) s = (RVoid, setButton_fs button pressed s)"
| "exec_fs (SetRunning is_running) s = (RVoid, setRunning_fs is_running s)"
| "exec_fs GetFrameBuffer s = (RPtr FrameBufferRegion, s)"
| "exec_fs GetFrameBufferSize s = (RInt getFrameBufferSize_fs, s)"
| "exec_fs GetPalette s = (RPtr PaletteRegion, s)"

inductive reachable_fs :: "fs_state \<Rightarrow> bool" where
  start_fs: "reachable_fs uninit_fs"
| step_fs: "reachable_fs s \<Longrightarrow> reachable_fs (snd (exec_fs c s))"

subsection \<open>Closed forms used in the proofs\<close>

text \<open>Byte \<open>k\<close> of the RGBA pixel that \<open>put_pixel\<close> stores for a colour.\<close>

definition channel :: "u8 \<times> u8 \<times> u8 \<Rightarrow> nat \<Rightarrow> u8" where
  "channel c k = (if k = 0 then fst c else if k = 1 then fst (snd c)
                  else if k = 2 then snd (snd c) else 255)"

text \<open>The colours the three loop bodies of \<^verbatim>\<open>fceux-simple.c\<close> leave in a pixel.\<close>

definition nrom_rgb :: "u32 \<Rightarrow> nat \<Rightarrow> nat \<Rightarrow> u8 \<times> u8 \<times> u8" where
  "nrom_rgb fc x y = (ucast ((of_nat x + fc) AND 0xFF), 0x20, ucast ((of_nat y + fc) AND 0xFF))"

definition unrom_rgb :: "fs_state \<Rightarrow> nat \<Rightarrow> nat \<Rightarrow> u8 \<times> u8 \<times> u8" where
  "unrom_rgb s x y =
     (let base_color = (if has_chr_ram_fs s \<noteq> 0 then chr_ram s ((x + y * 16) mod 8192)
                        else 0x40)
      in ((if controls_fs s AND 0x01 \<noteq> 0 then 0x40 + 64 else 0x40),
          (if controls_fs s AND 0x02 \<noteq> 0
           then ucast (((ucast base_color :: u32) + frame_count_fs s) AND 0xFF) + 64
           else ucast (((ucast base_color :: u32) + frame_count_fs s) AND 0xFF)),
          (if controls_fs s AND 0x80 \<noteq> 0
           then ucast (((of_nat x + of_nat y) + frame_count_fs s) AND 0xFF) + 64
           else ucast (((of_nat x + of_nat y) + frame_count_fs s) AND 0xFF))))"

definition other_rgb :: "u32 \<Rightarrow> nat \<Rightarrow> nat \<Rightarrow> u8 \<times> u8 \<times> u8" where
  "other_rgb fc x y =
     (ucast ((of_nat x * 2 + fc) AND 0xFF), ucast ((of_nat y * 2 + fc) AND 0xFF), 0x60)"

subsection \<open>Host inputs and sessions for the examples\<close>

text \<open>
  The memory a host passes to \<open>loadRom\<close>: a 16-byte iNES header with the given PRG count,
  CHR count, \<open>flags6\<close> and \<open>flags7\<close>, followed by zero bytes.
\<close>

definition ines_image :: "u8 \<Rightarrow> u8 \<Rightarrow> u8 \<Rightarrow> u8 \<Rightarrow> bytes" where
  "ines_image prg chr flags6 flags7 =
     (\<lambda>i. if i < 8 then [0x4E, 0x45, 0x53, 0x1A, prg, chr, flags6, flags7] ! i else 0)"

text \<open>
  The session \<open>init; loadRom\<close> with a mapper-0 image of one PRG and one CHR bank
  (24592 bytes).
\<close>

definition loaded_fz :: fz_state where
  "loaded_fz = snd (loadRom_fz (ines_image 1 1 0 0) 24592 (snd (init_fz uninit_fz)))"

definition loaded_fs :: fs_state where
  "loaded_fs = snd (loadRom_fs (ines_image 1 1 0 0) 24592 (snd (init_fs uninit_fs)))"

text \<open>
  The session \<open>init; loadRom\<close> with a 16-byte mapper-2 image that declares one PRG bank and
  no CHR bank (CHR-RAM), in the two palette-driven variants.
\<close>

definition unrom_ns :: ns_state where
  "unrom_ns = snd (loadRom_ns (ines_image 1 0 0x20 0) 16 (snd (init_ns uninit_ns)))"

definition unrom_fz :: fz_state where
  "unrom_fz = snd (loadRom_fz (ines_image 1 0 0x20 0) 16 (snd (init_fz uninit_fz)))"

subsection \<open>Predicates of the specification\<close>

text \<open>The alpha byte of every one of the 61440 pixels is 255.\<close>

definition alpha_ok :: "bytes \<Rightarrow> bool" where
  "alpha_ok fb = (\<forall>p \<in> {0..<61440}. fb (p * 4 + 3) = 255)"

text \<open>
  Rendering scheme P in the specification's words. The palette index of pixel \<open>(x, y)\<close>
  at frame counter \<open>fc\<close>:
\<close>

definition scheme_P_index :: "nat \<Rightarrow> nat \<Rightarrow> nat \<Rightarrow> nat" where
  "scheme_P_index x y fc = (drop_bit 3 x + drop_bit 3 y + drop_bit 2 fc) mod 64"

text \<open>
  The controller modulation table (bit 0 Right \<open>r += 64\<close>, bit 1 Left \<open>r -= 32\<close>, bit 2 Down
  \<open>g += 64\<close>, bit 3 Up \<open>g -= 32\<close>, bit 6 B \<open>b += 96\<close>, bit 7 A \<open>b += 128\<close>); channels are
  bytes, so the arithmetic is modulo 256.
\<close>

definition modulation :: "u32 \<Rightarrow> u8 \<times> u8 \<times> u8 \<Rightarrow> u8 \<times> u8 \<times> u8" where
  "modulation ctl = (\<lambda>(r, g, b).
     (r + (if bit ctl 0 then 64 else 0) - (if bit ctl 1 then 32 else 0),
      g + (if bit ctl 2 then 64 else 0) - (if bit ctl 3 then 32 else 0),
      b + (if bit ctl 6 then 96 else 0) + (if bit ctl 7 then 128 else 0)))"

text \<open>The mapper overlay: mapper 2 with CHR-RAM, on pixels with \<open>((x + y) & 8) != 0\<close>.\<close>

definition overlay :: "bool \<Rightarrow> nat \<Rightarrow> nat \<Rightarrow> u8 \<times> u8 \<times> u8 \<Rightarrow> u8 \<times> u8 \<times> u8" where
  "overlay mapper2_chr_ram x y = (\<lambda>(r, g, b).
     if mapper2_chr_ram \<and> bit (x + y) 3 then (r + 32, g, b + 32) else (r, g, b))"

definition scheme_P :: "bytes \<Rightarrow> nat \<Rightarrow> u32 \<Rightarrow> bool \<Rightarrow> nat \<Rightarrow> nat \<Rightarrow> u8 \<times> u8 \<times> u8" where
  "scheme_P pal fc ctl mapper2_chr_ram x y =
     (let c = scheme_P_index x y fc
      in overlay mapper2_chr_ram x y
           (modulation ctl (pal (c * 4 + 0), pal (c * 4 + 1), pal (c * 4 + 2))))"

text \<open>
  Two calls are the same call with the same arguments; for \<open>loadRom\<close> the sizes are equal
  and the host memories agree on the \<open>size\<close> bytes passed (the size read as unsigned: a
  negative \<open>int\<close> size is refused before any byte is read).
\<close>

fun same_call :: "call \<Rightarrow> call \<Rightarrow> bool" where
  "same_call Init c = (case c of Init \<Rightarrow> True | _ \<Rightarrow> False)"
| "same_call (LoadRom rom1 sz1) c =
     (case c of LoadRom rom2 sz2 \<Rightarrow> sz1 = sz2 \<and> (\<forall>i \<in> {0..<unat sz1}. rom1 i = rom2 i)
      | _ \<Rightarrow> False)"
| "same_call Frame c = (case c of Frame \<Rightarrow> True | _ \<Rightarrow> False)"
| "same_call Reset c = (case c of Reset \<Rightarrow> True | _ \<Rightarrow> False)"
| "same_call (SetButton b1 p1) c =
     (case c of SetButton b2 p2 \<Rightarrow> b1 = b2 \<and> p1 = p2 | _ \<Rightarrow> False)"
| "same_call (SetRunning r1) c = (case c of SetRunning r2 \<Rightarrow> r1 = r2 | _ \<Rightarrow> False)"
| "same_call GetFrameBuffer c = (case c of GetFrameBuffer \<Rightarrow> True | _ \<Rightarrow> False)"
| "same_call GetFrameBufferSize c = (case c of GetFrameBufferSize \<Rightarrow> True | _ \<Rightarrow> False)"
| "same_call GetPalette c = (case c of GetPalette \<Rightarrow> True | _ \<Rightarrow> False)"

section \<open>Loops in closed form\<close>

lemma for_upto_rule:
  assumes "P i s" and "i \<le> n"
    and "\<And>k t. i \<le> k \<Longrightarrow> k < n \<Longrightarrow> P k t \<Longrightarrow> P (Suc k) (body k t)"
  shows "P n (for_upto i n body s)"
  using assms
proof (induction i n body s rule: for_upto.induct)
  case (1 i n body s)
  show ?case
  proof (cases "i < n")
    case True
    have "P n (for_upto (Suc i) n body (body i s))"
      using True 1 by (intro "1.IH") auto
    then show ?thesis using True by (subst for_upto.simps) simp
  next
    case False
    then show ?thesis using 1 by (subst for_upto.simps) simp
  qed
qed

lemma for_upto_fold: "for_upto i n body s = fold body [i..<n] s"
proof (induction i n body s rule: for_upto.induct)
  case (1 i n body s)
  show ?case
  proof (cases "i < n")
    case True
    then show ?thesis using 1 by (subst for_upto.simps) (simp add: upt_conv_Cons)
  next
    case False
    then show ?thesis by (subst for_upto.simps) simp
  qed
qed

lemma for_upto_cong:
  assumes "\<And>k. i \<le> k \<Longrightarrow> k < n \<Longrightarrow> f k = g k"
  shows "for_upto i n f s = for_upto i n g s"
  unfolding for_upto_fold using assms by (intro fold_cong) auto

lemma fold_shift: "fold (\<lambda>x. f (k + x)) [0..<m] s = fold f [k..<k + m] s"
proof -
  have "[k..<k + m] = map (\<lambda>x. k + x) [0..<m]"
    by (simp add: map_add_upt add.commute)
  then show ?thesis by (simp add: fold_map comp_def)
qed

lemma for_upto_nested:
  "for_upto 0 h (\<lambda>y. for_upto 0 w (\<lambda>x. f (y * w + x))) s = for_upto 0 (h * w) f s"
proof (induction h arbitrary: s)
  case 0
  show ?case by (simp add: for_upto_fold)
next
  case (Suc h)
  have "[0..<Suc h * w] = [0..<h * w] @ [h * w..<h * w + w]"
    by (metis add.commute le_add1 mult_Suc upt_add_eq_append zero_le)
  then show ?case
    using Suc by (simp add: for_upto_fold fold_shift)
qed

lemma for_upto_write:
  "for_upto 0 n (\<lambda>i p. p(i := v i)) p = (\<lambda>j. if j < n then v j else p j)"
  by (rule for_upto_rule [where P = "\<lambda>k t. t = (\<lambda>j. if j < k then v j else p j)"])
     (auto simp: fun_eq_iff less_Suc_eq)

lemma dm4:
  "Suc (k * 4) mod 4 = 1" "Suc (k * 4) div 4 = k"
  "Suc (Suc (k * 4)) mod 4 = 2" "Suc (Suc (k * 4)) div 4 = k"
  "Suc (Suc (Suc (k * 4))) mod 4 = 3" "Suc (Suc (Suc (k * 4))) div 4 = k"
  by presburger+

lemma for_upto_write4:
  "for_upto 0 n (\<lambda>i p. p(i * 4 + 0 := a i, i * 4 + 1 := b i, i * 4 + 2 := c i, i * 4 + 3 := d i)) p =
     (\<lambda>j. if j < 4 * n
           then (if j mod 4 = 0 then a (j div 4) else if j mod 4 = 1 then b (j div 4)
                 else if j mod 4 = 2 then c (j div 4) else d (j div 4))
           else p j)"
proof (rule for_upto_rule [where P = "\<lambda>k t. t = (\<lambda>j. if j < 4 * k
           then (if j mod 4 = 0 then a (j div 4) else if j mod 4 = 1 then b (j div 4)
                 else if j mod 4 = 2 then c (j div 4) else d (j div 4))
           else p j)"])
  fix k t
  assume t: "t = (\<lambda>j. if j < 4 * k
           then (if j mod 4 = 0 then a (j div 4) else if j mod 4 = 1 then b (j div 4)
                 else if j mod 4 = 2 then c (j div 4) else d (j div 4))
           else p j)"
  show "t(k * 4 + 0 := a k, k * 4 + 1 := b k, k * 4 + 2 := c k, k * 4 + 3 := d k) =
     (\<lambda>j. if j < 4 * Suc k
           then (if j mod 4 = 0 then a (j div 4) else if j mod 4 = 1 then b (j div 4)
                 else if j mod 4 = 2 then c (j div 4) else d (j div 4))
           else p j)"
  proof (rule ext)
    fix j
    consider "j < 4 * k" | "j = k * 4" | "j = k * 4 + 1" | "j = k * 4 + 2" | "j = k * 4 + 3"
      | "j \<ge> 4 * Suc k" by atomize_elim arith
    then show "(t(k * 4 + 0 := a k, k * 4 + 1 := b k, k * 4 + 2 := c k, k * 4 + 3 := d k)) j =
       (if j < 4 * Suc k
           then (if j mod 4 = 0 then a (j div 4) else if j mod 4 = 1 then b (j div 4)
                 else if j mod 4 = 2 then c (j div 4) else d (j div 4))
           else p j)"
      by cases (simp_all add: t dm4)
  qed
qed simp_all

lemma set_alpha_from:
  "i mod 4 = 3 \<Longrightarrow>
   set_alpha i fb = (\<lambda>j. if i \<le> j \<and> j < 245760 \<and> j mod 4 = 3 then 255 else fb j)"
proof (induction i fb rule: set_alpha.induct)
  case (1 i fb)
  show ?case
  proof (cases "i < 245760")
    case True
    have "set_alpha (i + 4) (fb(i := 255)) =
      (\<lambda>j. if i + 4 \<le> j \<and> j < 245760 \<and> j mod 4 = 3 then 255 else (fb(i := 255)) j)"
      using True "1.prems" by (intro "1.IH") simp_all
    moreover have "\<And>j. (i \<le> j \<and> j mod 4 = 3) = (j = i \<or> (i + 4 \<le> j \<and> j mod 4 = 3))"
      using "1.prems" by presburger
    ultimately show ?thesis
      using True by (subst set_alpha.simps) (auto simp: fun_eq_iff)
  next
    case False
    then show ?thesis by (subst set_alpha.simps) (auto simp: fun_eq_iff)
  qed
qed

lemma zero_mem_eq: "zero_mem p n = (\<lambda>j. if j < n then 0 else p j)"
  unfolding zero_mem_def by (rule for_upto_write)

lemma copy_mem_eq: "copy_mem d src n = (\<lambda>j. if j < n then src j else d j)"
  unfolding copy_mem_def by (rule for_upto_write)

lemma zero_memory_eq: "zero_memory p n = (\<lambda>j. if j < n then 0 else p j)"
  unfolding zero_memory_def by (rule for_upto_write)

lemma copy_memory_eq: "copy_memory d src n = (\<lambda>j. if j < n then src j else d j)"
  unfolding copy_memory_def by (rule for_upto_write)

lemma my_memset_eq: "my_memset p v n = (\<lambda>j. if j < n then ucast v else p j)"
  unfolding my_memset_def by (rule for_upto_write)

lemma my_memcpy_eq: "my_memcpy d src n = (\<lambda>j. if j < n then src j else d j)"
  unfolding my_memcpy_def by (rule for_upto_write)

lemma set_alpha_3: "set_alpha 3 fb = (\<lambda>j. if j < 245760 \<and> j mod 4 = 3 then 255 else fb j)"
proof -
  have "\<And>j::nat. (3 \<le> j \<and> j < 245760 \<and> j mod 4 = 3) = (j < 245760 \<and> j mod 4 = 3)"
    by presburger
  then show ?thesis by (simp add: set_alpha_from)
qed

lemma put_pixel_channel:
  "put_pixel fb (i * 4) c =
     fb(i * 4 + 0 := channel c 0, i * 4 + 1 := channel c 1, i * 4 + 2 := channel c 2,
        i * 4 + 3 := channel c 3)"
  by (cases c) (simp add: put_pixel_def channel_def)

lemma pixel_loops:
  "for_upto 0 240 (\<lambda>y. for_upto 0 256 (\<lambda>x fb. put_pixel fb ((y * 256 + x) * 4) (px x y))) fb =
     (\<lambda>j. if j < 245760 then channel (px (j div 4 mod 256) (j div 1024)) (j mod 4) else fb j)"
proof -
  define f where "f = (\<lambda>i fb. put_pixel fb (i * 4) (px (i mod 256) (i div 256)))"
  have inner: "for_upto 0 256 (\<lambda>x fb. put_pixel fb ((y * 256 + x) * 4) (px x y)) =
      for_upto 0 256 (\<lambda>x. f (y * 256 + x))" for y
    by (rule ext, rule for_upto_cong) (simp add: f_def)
  have "for_upto 0 240 (\<lambda>y. for_upto 0 256 (\<lambda>x fb. put_pixel fb ((y * 256 + x) * 4) (px x y))) fb =
      for_upto 0 (240 * 256) f fb"
    unfolding inner by (rule for_upto_nested)
  also have "\<dots> = (\<lambda>j. if j < 4 * (240 * 256)
           then (if j mod 4 = 0 then channel (px (j div 4 mod 256) (j div 4 div 256)) 0
                 else if j mod 4 = 1 then channel (px (j div 4 mod 256) (j div 4 div 256)) 1
                 else if j mod 4 = 2 then channel (px (j div 4 mod 256) (j div 4 div 256)) 2
                 else channel (px (j div 4 mod 256) (j div 4 div 256)) 3)
           else fb j)"
    unfolding f_def put_pixel_channel by (rule for_upto_write4)
  also have "\<dots> = (\<lambda>j. if j < 245760 then channel (px (j div 4 mod 256) (j div 1024)) (j mod 4) else fb j)"
  proof (rule ext)
    fix j :: nat
    have "j mod 4 = 0 \<or> j mod 4 = 1 \<or> j mod 4 = 2 \<or> j mod 4 = 3" by presburger
    moreover have "j div 4 div 256 = j div 1024" by (simp add: div_mult2_eq [symmetric])
    ultimately show "(if j < 4 * (240 * 256)
           then (if j mod 4 = 0 then channel (px (j div 4 mod 256) (j div 4 div 256)) 0
                 else if j mod 4 = 1 then channel (px (j div 4 mod 256) (j div 4 div 256)) 1
                 else if j mod 4 = 2 then channel (px (j div 4 mod 256) (j div 4 div 256)) 2
                 else channel (px (j div 4 mod 256) (j div 4 div 256)) 3)
           else fb j) =
       (if j < 245760 then channel (px (j div 4 mod 256) (j div 1024)) (j mod 4) else fb j)"
      by auto
  qed
  finally show ?thesis .
qed

lemma nrom_pixel_eq: "nrom_pixel fc y x fb = put_pixel fb ((y * 256 + x) * 4) (nrom_rgb fc x y)"
  by (simp add: nrom_pixel_def put_pixel_def nrom_rgb_def Let_def)

lemma other_pixel_eq: "other_pixel fc y x fb = put_pixel fb ((y * 256 + x) * 4) (other_rgb fc x y)"
  by (simp add: other_pixel_def put_pixel_def other_rgb_def Let_def)

lemma unrom_pixel_eq: "unrom_pixel s y x fb = put_pixel fb ((y * 256 + x) * 4) (unrom_rgb s x y)"
  by (auto simp: unrom_pixel_def put_pixel_def unrom_rgb_def Let_def fun_eq_iff)

lemma render_frame_fb:
  "frame_buffer (render_frame s) =
     (\<lambda>j. if j < 245760
           then channel (pixel_zi (frame_count s + 1) (controls s) (j div 4 mod 256) (j div 1024))
                  (j mod 4)
           else frame_buffer s j)"
  unfolding render_frame_def Let_def pixel_loops by (simp cong: if_cong)

lemma generate_frame_fb:
  "frame_buffer (generate_frame s) =
     (\<lambda>j. if j < 245760
           then channel (pixel_ns (nes_palette s) (frame_count s + 1) (controls s)
                           (j div 4 mod 256) (j div 1024)) (j mod 4)
           else frame_buffer s j)"
  unfolding generate_frame_def Let_def pixel_loops by (simp cong: if_cong)

lemma generate_nes_frame_fb:
  "frame_buffer (generate_nes_frame s) =
     (\<lambda>j. if j < 245760
           then channel (pixel_fz (nes_palette s) (frame_count s + 1) (controls s) (mapper s)
                           (has_chr_ram s) (j div 4 mod 256) (j div 1024)) (j mod 4)
           else frame_buffer s j)"
  unfolding generate_nes_frame_def Let_def pixel_loops by (simp cong: if_cong)

lemma frame_fs_fb:
  "initialized_fs s \<noteq> 0 \<Longrightarrow> rom_loaded_fs s \<noteq> 0 \<Longrightarrow> running_fs s \<noteq> 0 \<Longrightarrow>
   frame_buffer_fs (frame_fs s) =
     (\<lambda>j. if j < 245760
           then channel
                  (if mapper_fs s = 0 then nrom_rgb (frame_count_fs s + 1) (j div 4 mod 256) (j div 1024)
                   else if mapper_fs s = 2
                     then unrom_rgb (s\<lparr>frame_count_fs := frame_count_fs s + 1\<rparr>) (j div 4 mod 256) (j div 1024)
                   else other_rgb (frame_count_fs s + 1) (j div 4 mod 256) (j div 1024))
                  (j mod 4)
           else frame_buffer_fs s j)"
  unfolding frame_fs_def Let_def nrom_pixel_eq [abs_def] unrom_pixel_eq [abs_def]
      other_pixel_eq [abs_def] pixel_loops by (simp cong: if_cong)

lemma channel_3: "channel c 3 = 255"
  by (simp add: channel_def)

lemma alpha_index: "(p::nat) < 61440 \<Longrightarrow> p * 4 + 3 < 245760 \<and> (p * 4 + 3) mod 4 = 3"
  by presburger

lemma clear_frame_zi_fb:
  "frame_buffer (clear_frame_zi s) =
     (\<lambda>j. if j < 245760 then (if j mod 4 = 3 then 255 else 0) else frame_buffer s j)"
  by (auto simp: clear_frame_zi_def Let_def zero_mem_eq set_alpha_3 fun_eq_iff)

lemma clear_frame_ns_fb:
  "frame_buffer (clear_frame_ns s) =
     (\<lambda>j. if j < 245760 then (if j mod 4 = 3 then 255 else 0) else frame_buffer s j)"
  by (auto simp: clear_frame_ns_def Let_def zero_memory_eq set_alpha_3 fun_eq_iff)

lemma clear_frame_buffer_fb:
  "frame_buffer (clear_frame_buffer s) =
     (\<lambda>j. if j < 245760 then (if j mod 4 = 3 then 255 else 0) else frame_buffer s j)"
  by (auto simp: clear_frame_buffer_def Let_def my_memset_eq set_alpha_3 fun_eq_iff)

section \<open>Controller input\<close>

lemma button_range: "\<not> (b <s 0 \<or> 7 <s b) \<Longrightarrow> unat (b :: u32) < 8"
proof -
  assume "\<not> (b <s 0 \<or> 7 <s b)"
  then have s: "0 \<le> sint b" "sint b \<le> 7"
    by (simp_all add: word_sless_alt not_less)
  have "uint b = sint b mod 2 ^ 32"
    using uint_word_of_int [of "sint b", where ?'a = 32] by simp
  then have "uint b = sint b" using s by simp
  with s show ?thesis by (simp add: unat_eq_nat_uint)
qed

lemma setButton_bits32:
  assumes "n < 8"
  shows "bit (c OR (2 ^ n :: u32)) k = (if k = n then True else bit c k)"
    and "bit (c AND NOT (2 ^ n :: u32)) k = (if k = n then False else bit c k)"
  using assms by (auto simp: bit_simps dest: bit_imp_le_length)

lemma setButton_bits8:
  assumes "n < 8"
  shows "bit ((c :: u8) OR ucast (2 ^ n :: u32)) k = (if k = n then True else bit c k)"
    and "bit ((c :: u8) AND NOT (ucast (2 ^ n :: u32))) k = (if k = n then False else bit c k)"
  using assms by (auto simp: bit_simps dest: bit_imp_le_length)

lemma setButton_zi_out: "b <s 0 \<or> 7 <s b \<Longrightarrow> setButton_zi b p s = s"
  by (simp add: setButton_zi_def)

lemma setButton_zi_in:
  assumes "\<not> (b <s 0 \<or> 7 <s b)"
  shows "setButton_zi b p s = s\<lparr>controls := controls (setButton_zi b p s)\<rparr>"
    and "bit (controls (setButton_zi b p s)) k = (if k = unat b then p \<noteq> 0 else bit (controls s) k)"
  using assms button_range [OF assms]
  by (simp_all add: setButton_zi_def Let_def setButton_bits32)

lemma setButton_ns_out: "b <s 0 \<or> 7 <s b \<Longrightarrow> setButton_ns b p s = s"
  by (simp add: setButton_ns_def)

lemma setButton_ns_in:
  assumes "\<not> (b <s 0 \<or> 7 <s b)"
  shows "setButton_ns b p s = s\<lparr>controls := controls (setButton_ns b p s)\<rparr>"
    and "bit (controls (setButton_ns b p s)) k = (if k = unat b then p \<noteq> 0 else bit (controls s) k)"
  using assms button_range [OF assms]
  by (simp_all add: setButton_ns_def Let_def setButton_bits32)

lemma setButton_fz_out: "b <s 0 \<or> 7 <s b \<Longrightarrow> setButton_fz b p s = s"
  by (simp add: setButton_fz_def)

lemma setButton_fz_in:
  assumes "\<not> (b <s 0 \<or> 7 <s b)"
  shows "setButton_fz b p s = s\<lparr>controls := controls (setButton_fz b p s)\<rparr>"
    and "bit (controls (setButton_fz b p s)) k = (if k = unat b then p \<noteq> 0 else bit (controls s) k)"
  using assms button_range [OF assms]
  by (simp_all add: setButton_fz_def Let_def setButton_bits32)

lemma setButton_fs_out: "b <s 0 \<or> 7 <s b \<Longrightarrow> setButton_fs b p s = s"
  by (simp add: setButton_fs_def)

lemma setButton_fs_in:
  assumes "\<not> (b <s 0 \<or> 7 <s b)"
  shows "setButton_fs b p s = s\<lparr>controls_fs := controls_fs (setButton_fs b p s)\<rparr>"
    and "bit (controls_fs (setButton_fs b p s)) k = (if k = unat b then p \<noteq> 0 else bit (controls_fs s) k)"
  using assms button_range [OF assms]
  by (simp_all add: setButton_fs_def Let_def setButton_bits8)

text \<open>
  C9. \<open>setButton(b, pressed)\<close> with \<open>b\<close> outside \<open>[0, 7]\<close> changes nothing at all; with
  \<open>b\<close> in \<open>[0, 7]\<close> it changes \<open>controls\<close> only, bit \<open>b\<close> becomes set exactly when
  \<open>pressed\<close> is nonzero and every other bit keeps its value. All four variants.
\<close>

theorem setButton_contract:
  "(b <s 0 \<or> 7 <s b \<longrightarrow>
      setButton_zi b p z = z \<and> setButton_ns b p n = n \<and>
      setButton_fz b p f = f \<and> setButton_fs b p q = q) \<and>
   (\<not> (b <s 0 \<or> 7 <s b) \<longrightarrow>
      setButton_zi b p z = z\<lparr>controls := controls (setButton_zi b p z)\<rparr> \<and>
      setButton_ns b p n = n\<lparr>controls := controls (setButton_ns b p n)\<rparr> \<and>
      setButton_fz b p f = f\<lparr>controls := controls (setButton_fz b p f)\<rparr> \<and>
      setButton_fs b p q = q\<lparr>controls_fs := controls_fs (setButton_fs b p q)\<rparr> \<and>
      (\<forall>k. bit (controls (setButton_zi b p z)) k =
             (if k = unat b then p \<noteq> 0 else bit (controls z) k)) \<and>
      (\<forall>k. bit (controls (setButton_ns b p n)) k =
             (if k = unat b then p \<noteq> 0 else bit (controls n) k)) \<and>
      (\<forall>k. bit (controls (setButton_fz b p f)) k =
             (if k = unat b then p \<noteq> 0 else bit (controls f) k)) \<and>
      (\<forall>k. bit (controls_fs (setButton_fs b p q)) k =
             (if k = unat b then p \<noteq> 0 else bit (controls_fs q) k)))"
proof (intro conjI impI allI)
  assume out: "b <s 0 \<or> 7 <s b"
  show "setButton_zi b p z = z" using out by (rule setButton_zi_out)
  show "setButton_ns b p n = n" using out by (rule setButton_ns_out)
  show "setButton_fz b p f = f" using out by (rule setButton_fz_out)
  show "setButton_fs b p q = q" using out by (rule setButton_fs_out)
next
  assume "\<not> (b <s 0 \<or> 7 <s b)"
  then show "setButton_zi b p z = z\<lparr>controls := controls (setButton_zi b p z)\<rparr>"
    by (rule setButton_zi_in)
next
  assume "\<not> (b <s 0 \<or> 7 <s b)"
  then show "setButton_ns b p n = n\<lparr>controls := controls (setButton_ns b p n)\<rparr>"
    by (rule setButton_ns_in)
next
  assume "\<not> (b <s 0 \<or> 7 <s b)"
  then show "setButton_fz b p f = f\<lparr>controls := controls (setButton_fz b p f)\<rparr>"
    by (rule setButton_fz_in)
next
  assume "\<not> (b <s 0 \<or> 7 <s b)"
  then show "setButton_fs b p q = q\<lparr>controls_fs := controls_fs (setButton_fs b p q)\<rparr>"
    by (rule setButton_fs_in)
next
  fix k assume "\<not> (b <s 0 \<or> 7 <s b)"
  then show "bit (controls (setButton_zi b p z)) k =
             (if k = unat b then p \<noteq> 0 else bit (controls z) k)"
    by (rule setButton_zi_in)
next
  fix k assume "\<not> (b <s 0 \<or> 7 <s b)"
  then show "bit (controls (setButton_ns b p n)) k =
             (if k = unat b then p \<noteq> 0 else bit (controls n) k)"
    by (rule setButton_ns_in)
next
  fix k assume "\<not> (b <s 0 \<or> 7 <s b)"
  then show "bit (controls (setButton_fz b p f)) k =
             (if k = unat b then p \<noteq> 0 else bit (controls f) k)"
    by (rule setButton_fz_in)
next
  fix k assume "\<not> (b <s 0 \<or> 7 <s b)"
  then show "bit (controls_fs (setButton_fs b p q)) k =
             (if k = unat b then p \<noteq> 0 else bit (controls_fs q) k)"
    by (rule setButton_fs_in)
qed


theorem setButton_contract_witness:
  "((9 :: u32) <s 0 \<or> (7 :: u32) <s 9) \<and> \<not> ((3 :: u32) <s 0 \<or> (7 :: u32) <s 3) \<and>
   setButton_zi 9 1 uninit_zi = uninit_zi \<and> setButton_ns 9 1 uninit_ns = uninit_ns \<and>
   setButton_fz 9 1 uninit_fz = uninit_fz \<and> setButton_fs 9 1 uninit_fs = uninit_fs \<and>
   bit (controls (setButton_zi 3 1 uninit_zi)) 3 \<and>
   \<not> bit (controls (setButton_ns 3 1 uninit_ns)) 2 \<and>
   bit (controls (setButton_fz 3 1 uninit_fz)) 3 \<and>
   \<not> bit (controls_fs (setButton_fs 3 0 (uninit_fs\<lparr>controls_fs := 8\<rparr>))) 3"
proof -
  have out: "(9 :: u32) <s 0 \<or> (7 :: u32) <s 9" by (simp add: word_sless_alt)
  have inr: "\<not> ((3 :: u32) <s 0 \<or> (7 :: u32) <s 3)" by (simp add: word_sless_alt)
  note a = setButton_contract [of 9 1 uninit_zi uninit_ns uninit_fz uninit_fs, THEN conjunct1,
      rule_format, OF out]
  note b = setButton_contract [of 3 1 uninit_zi uninit_ns uninit_fz uninit_fs, THEN conjunct2,
      rule_format, OF inr]
  note c = setButton_contract [of 3 0 uninit_zi uninit_ns uninit_fz
      "uninit_fs\<lparr>controls_fs := 8\<rparr>", THEN conjunct2, rule_format, OF inr]
  have "bit (controls (setButton_zi 3 1 uninit_zi)) 3"
    using b by simp
  moreover have "\<not> bit (controls (setButton_ns 3 1 uninit_ns)) 2"
    using b by (simp add: uninit_ns_def)
  moreover have "bit (controls (setButton_fz 3 1 uninit_fz)) 3"
    using b by simp
  moreover have "\<not> bit (controls_fs (setButton_fs 3 0 (uninit_fs\<lparr>controls_fs := 8\<rparr>))) 3"
    using c by simp
  ultimately show ?thesis using out inr a by simp
qed

section \<open>Initialisation\<close>

lemma init_zi_done: "initialized s \<noteq> 0 \<Longrightarrow> init_zi s = (1, s)"
  by (simp add: init_zi_def)

lemma init_zi_sets: "fst (init_zi s) = 1 \<and> initialized (snd (init_zi s)) \<noteq> 0"
  by (simp add: init_zi_def Let_def init_palette_zi_def clear_frame_zi_def)

lemma init_ns_done: "initialized s \<noteq> 0 \<Longrightarrow> init_ns s = (1, s)"
  by (simp add: init_ns_def)

lemma init_ns_sets: "fst (init_ns s) = 1 \<and> initialized (snd (init_ns s)) \<noteq> 0"
  by (simp add: init_ns_def Let_def init_palette_ns_def clear_frame_ns_def)

lemma init_fz_done: "initialized s \<noteq> 0 \<Longrightarrow> init_fz s = (1, s)"
  by (simp add: init_fz_def)

lemma init_fz_sets: "fst (init_fz s) = 1 \<and> initialized (snd (init_fz s)) \<noteq> 0"
  by (simp add: init_fz_def Let_def init_nes_palette_def clear_frame_buffer_def)

lemma init_fs_done: "initialized_fs s \<noteq> 0 \<Longrightarrow> init_fs s = (1, s)"
  by (simp add: init_fs_def)

lemma init_fs_sets: "fst (init_fs s) = 1 \<and> initialized_fs (snd (init_fs s)) \<noteq> 0"
  by (simp add: init_fs_def Let_def)

lemma init_zi_twice: "init_zi (snd (init_zi s)) = (1, snd (init_zi s))"
  by (rule init_zi_done) (simp add: init_zi_sets)

lemma init_ns_twice: "init_ns (snd (init_ns s)) = (1, snd (init_ns s))"
  by (rule init_ns_done) (simp add: init_ns_sets)

lemma init_fz_twice: "init_fz (snd (init_fz s)) = (1, snd (init_fz s))"
  by (rule init_fz_done) (simp add: init_fz_sets)

lemma init_fs_twice: "init_fs (snd (init_fs s)) = (1, snd (init_fs s))"
  by (rule init_fs_done) (simp add: init_fs_sets)

text \<open>
  C6. \<open>init\<close> is idempotent. Called with \<open>initialized\<close> already set it returns 1 and hands
  back the state it was given, every component untouched; and \<open>init; init\<close> from the
  uninitialised module (or from any state) ends in the state a single \<open>init\<close> reaches,
  both calls returning 1. All four variants.
\<close>

theorem init_idempotent:
  "(initialized z \<noteq> 0 \<longrightarrow> init_zi z = (1, z)) \<and>
   (initialized n \<noteq> 0 \<longrightarrow> init_ns n = (1, n)) \<and>
   (initialized f \<noteq> 0 \<longrightarrow> init_fz f = (1, f)) \<and>
   (initialized_fs q \<noteq> 0 \<longrightarrow> init_fs q = (1, q)) \<and>
   fst (init_zi uninit_zi) = 1 \<and> init_zi (snd (init_zi uninit_zi)) = (1, snd (init_zi uninit_zi)) \<and>
   fst (init_ns uninit_ns) = 1 \<and> init_ns (snd (init_ns uninit_ns)) = (1, snd (init_ns uninit_ns)) \<and>
   fst (init_fz uninit_fz) = 1 \<and> init_fz (snd (init_fz uninit_fz)) = (1, snd (init_fz uninit_fz)) \<and>
   fst (init_fs uninit_fs) = 1 \<and> init_fs (snd (init_fs uninit_fs)) = (1, snd (init_fs uninit_fs)) \<and>
   init_zi (snd (init_zi z)) = (1, snd (init_zi z)) \<and>
   init_ns (snd (init_ns n)) = (1, snd (init_ns n)) \<and>
   init_fz (snd (init_fz f)) = (1, snd (init_fz f)) \<and>
   init_fs (snd (init_fs q)) = (1, snd (init_fs q))"
  by (intro conjI impI)
     (simp_all add: init_zi_done init_ns_done init_fz_done init_fs_done init_zi_sets init_ns_sets
        init_fz_sets init_fs_sets init_zi_twice init_ns_twice init_fz_twice init_fs_twice)

theorem init_idempotent_witness:
  "initialized (snd (init_zi uninit_zi)) \<noteq> 0 \<and>
   init_zi (snd (init_zi uninit_zi)) = (1, snd (init_zi uninit_zi)) \<and>
   initialized_fs (uninit_fs\<lparr>initialized_fs := 1, controls_fs := 5\<rparr>) \<noteq> 0 \<and>
   init_fs (uninit_fs\<lparr>initialized_fs := 1, controls_fs := 5\<rparr>) =
     (1, uninit_fs\<lparr>initialized_fs := 1, controls_fs := 5\<rparr>)"
proof -
  have a: "initialized (snd (init_zi uninit_zi)) \<noteq> 0"
    by (simp add: init_zi_sets)
  have b: "initialized_fs (uninit_fs\<lparr>initialized_fs := 1, controls_fs := 5\<rparr>) \<noteq> 0"
    by simp
  note t = init_idempotent [of "snd (init_zi uninit_zi)" uninit_ns uninit_fz
      "uninit_fs\<lparr>initialized_fs := 1, controls_fs := 5\<rparr>"]
  from t a have "init_zi (snd (init_zi uninit_zi)) = (1, snd (init_zi uninit_zi))" by blast
  moreover from t b have "init_fs (uninit_fs\<lparr>initialized_fs := 1, controls_fs := 5\<rparr>) =
     (1, uninit_fs\<lparr>initialized_fs := 1, controls_fs := 5\<rparr>)" by blast
  ultimately show ?thesis using a b by blast
qed

section \<open>The frame counter\<close>

lemma unat_succ32: "unat ((w :: u32) + 1) = (unat w + 1) mod 2 ^ 32"
  by (simp add: unat_word_ariths)

lemma frame_count_zi:
  "frame_count (frame_zi s) = (if initialized s \<noteq> 0 then frame_count s + 1 else frame_count s)"
  "frame_count (snd (init_zi s)) = (if initialized s \<noteq> 0 then frame_count s else 0)"
  "frame_count (reset_zi s) = 0"
  "frame_count (snd (loadRom_zi rom sz s)) = frame_count s"
  "frame_count (setButton_zi b p s) = frame_count s"
  "frame_count (setRunning_zi r s) = frame_count s"
  by (simp_all add: frame_zi_def render_frame_def init_zi_def reset_zi_def loadRom_zi_def
      setButton_zi_def setRunning_zi_def init_palette_zi_def clear_frame_zi_def Let_def)

lemma frame_count_ns:
  "frame_count (frame_ns s) = (if initialized s \<noteq> 0 then frame_count s + 1 else frame_count s)"
  "frame_count (snd (init_ns s)) = (if initialized s \<noteq> 0 then frame_count s else 0)"
  "frame_count (reset_ns s) = 0"
  "frame_count (snd (loadRom_ns rom sz s)) = frame_count s"
  "frame_count (setButton_ns b p s) = frame_count s"
  "frame_count (setRunning_ns r s) = frame_count s"
  by (simp_all add: frame_ns_def generate_frame_def init_ns_def reset_ns_def loadRom_ns_def
      setButton_ns_def setRunning_ns_def init_palette_ns_def clear_frame_ns_def Let_def)

lemma frame_count_fz:
  "frame_count (frame_fz s) =
     (if initialized s \<noteq> 0 \<and> rom_loaded s \<noteq> 0 then frame_count s + 1 else frame_count s)"
  "frame_count (snd (init_fz s)) = (if initialized s \<noteq> 0 then frame_count s else 0)"
  "frame_count (reset_fz s) = 0"
  "frame_count (snd (loadRom_fz rom sz s)) = frame_count s"
  "frame_count (setButton_fz b p s) = frame_count s"
  "frame_count (setRunning_fz r s) = frame_count s"
  by (simp_all add: frame_fz_def generate_nes_frame_def init_fz_def reset_fz_def loadRom_fz_def
      setButton_fz_def setRunning_fz_def init_nes_palette_def clear_frame_buffer_def Let_def)

lemma frame_count_fs:
  "frame_count_fs (frame_fs s) =
     (if initialized_fs s \<noteq> 0 \<and> rom_loaded_fs s \<noteq> 0 \<and> running_fs s \<noteq> 0
      then frame_count_fs s + 1 else frame_count_fs s)"
  "frame_count_fs (snd (init_fs s)) = (if initialized_fs s \<noteq> 0 then frame_count_fs s else 0)"
  "frame_count_fs (reset_fs s) = 0"
  "frame_count_fs (snd (loadRom_fs rom sz s)) = frame_count_fs s"
  "frame_count_fs (setButton_fs b p s) = frame_count_fs s"
  "frame_count_fs (setRunning_fs r s) = frame_count_fs s"
  by (simp_all add: frame_fs_def init_fs_def reset_fs_def loadRom_fs_def
      setButton_fs_def setRunning_fs_def Let_def)

lemma frame_count_exec_zi:
  "c \<noteq> Init \<Longrightarrow> c \<noteq> Frame \<Longrightarrow> c \<noteq> Reset \<Longrightarrow> frame_count (snd (exec_zi c s)) = frame_count s"
  by (cases c) (simp_all add: frame_count_zi split_beta)

lemma frame_count_exec_ns:
  "c \<noteq> Init \<Longrightarrow> c \<noteq> Frame \<Longrightarrow> c \<noteq> Reset \<Longrightarrow> frame_count (snd (exec_ns c s)) = frame_count s"
  by (cases c) (simp_all add: frame_count_ns split_beta)

lemma frame_count_exec_fz:
  "c \<noteq> Init \<Longrightarrow> c \<noteq> Frame \<Longrightarrow> c \<noteq> Reset \<Longrightarrow> frame_count (snd (exec_fz c s)) = frame_count s"
  by (cases c) (simp_all add: frame_count_fz split_beta)

lemma frame_count_exec_fs:
  "c \<noteq> Init \<Longrightarrow> c \<noteq> Frame \<Longrightarrow> c \<noteq> Reset \<Longrightarrow>
   frame_count_fs (snd (exec_fs c s)) = frame_count_fs s"
  by (cases c) (simp_all add: frame_count_fs split_beta)


text \<open>
  C8. \<open>frame_count\<close> is a 32-bit unsigned counter. A \<open>frame()\<close> call that its variant
  permits to render adds exactly 1 modulo \<open>2^32\<close>; a \<open>frame()\<close> call that is gated off
  leaves it alone; \<open>init\<close> (when it runs) and \<open>reset\<close> set it to 0; and every other
  exported call (\<open>loadRom\<close>, \<open>setButton\<close>, \<open>setRunning\<close>, the three accessors) leaves
  it unchanged. All four variants.
\<close>

theorem frame_count_contract:
  "unat (frame_count (frame_zi z)) =
     (if initialized z \<noteq> 0 then (unat (frame_count z) + 1) mod 2 ^ 32 else unat (frame_count z)) \<and>
   unat (frame_count (frame_ns n)) =
     (if initialized n \<noteq> 0 then (unat (frame_count n) + 1) mod 2 ^ 32 else unat (frame_count n)) \<and>
   unat (frame_count (frame_fz f)) =
     (if initialized f \<noteq> 0 \<and> rom_loaded f \<noteq> 0 then (unat (frame_count f) + 1) mod 2 ^ 32
      else unat (frame_count f)) \<and>
   unat (frame_count_fs (frame_fs q)) =
     (if initialized_fs q \<noteq> 0 \<and> rom_loaded_fs q \<noteq> 0 \<and> running_fs q \<noteq> 0
      then (unat (frame_count_fs q) + 1) mod 2 ^ 32 else unat (frame_count_fs q)) \<and>
   frame_count (snd (init_zi z)) = (if initialized z \<noteq> 0 then frame_count z else 0) \<and>
   frame_count (snd (init_ns n)) = (if initialized n \<noteq> 0 then frame_count n else 0) \<and>
   frame_count (snd (init_fz f)) = (if initialized f \<noteq> 0 then frame_count f else 0) \<and>
   frame_count_fs (snd (init_fs q)) = (if initialized_fs q \<noteq> 0 then frame_count_fs q else 0) \<and>
   frame_count (reset_zi z) = 0 \<and> frame_count (reset_ns n) = 0 \<and>
   frame_count (reset_fz f) = 0 \<and> frame_count_fs (reset_fs q) = 0 \<and>
   (\<forall>c. c \<noteq> Init \<and> c \<noteq> Frame \<and> c \<noteq> Reset \<longrightarrow>
      frame_count (snd (exec_zi c z)) = frame_count z \<and>
      frame_count (snd (exec_ns c n)) = frame_count n \<and>
      frame_count (snd (exec_fz c f)) = frame_count f \<and>
      frame_count_fs (snd (exec_fs c q)) = frame_count_fs q)"
proof -
  have frames:
    "unat (frame_count (frame_zi z)) =
       (if initialized z \<noteq> 0 then (unat (frame_count z) + 1) mod 2 ^ 32 else unat (frame_count z))"
    "unat (frame_count (frame_ns n)) =
       (if initialized n \<noteq> 0 then (unat (frame_count n) + 1) mod 2 ^ 32 else unat (frame_count n))"
    "unat (frame_count (frame_fz f)) =
       (if initialized f \<noteq> 0 \<and> rom_loaded f \<noteq> 0 then (unat (frame_count f) + 1) mod 2 ^ 32
        else unat (frame_count f))"
    "unat (frame_count_fs (frame_fs q)) =
       (if initialized_fs q \<noteq> 0 \<and> rom_loaded_fs q \<noteq> 0 \<and> running_fs q \<noteq> 0
        then (unat (frame_count_fs q) + 1) mod 2 ^ 32 else unat (frame_count_fs q))"
    by (simp_all only: frame_count_zi frame_count_ns frame_count_fz frame_count_fs unat_succ32
        if_distrib [of unat])
  have others: "\<forall>c. c \<noteq> Init \<and> c \<noteq> Frame \<and> c \<noteq> Reset \<longrightarrow>
      frame_count (snd (exec_zi c z)) = frame_count z \<and>
      frame_count (snd (exec_ns c n)) = frame_count n \<and>
      frame_count (snd (exec_fz c f)) = frame_count f \<and>
      frame_count_fs (snd (exec_fs c q)) = frame_count_fs q"
    by (simp add: frame_count_exec_zi frame_count_exec_ns frame_count_exec_fz frame_count_exec_fs)
  show ?thesis
    by (intro conjI frames others frame_count_zi frame_count_ns frame_count_fz frame_count_fs)
qed

theorem frame_count_contract_witness:
  "SetButton 0 1 \<noteq> Init \<and> SetButton 0 1 \<noteq> Frame \<and> SetButton 0 1 \<noteq> Reset \<and>
   frame_count (snd (exec_zi (SetButton 0 1) (uninit_zi\<lparr>frame_count := 7\<rparr>))) = 7 \<and>
   frame_count_fs (snd (exec_fs (SetButton 0 1) (uninit_fs\<lparr>frame_count_fs := 7\<rparr>))) = 7 \<and>
   unat (frame_count (frame_fz
     (uninit_fz\<lparr>initialized := 1, rom_loaded := 1, frame_count := 0xFFFFFFFF\<rparr>))) = 0 \<and>
   unat (frame_count (frame_ns (uninit_ns\<lparr>initialized := 1, frame_count := 41\<rparr>))) = 42"
proof -
  note t = frame_count_contract [of "uninit_zi\<lparr>frame_count := 7\<rparr>"
      "uninit_ns\<lparr>initialized := 1, frame_count := 41\<rparr>"
      "uninit_fz\<lparr>initialized := 1, rom_loaded := 1, frame_count := 0xFFFFFFFF\<rparr>"
      "uninit_fs\<lparr>frame_count_fs := 7\<rparr>"]
  have c: "SetButton 0 1 \<noteq> Init \<and> SetButton 0 1 \<noteq> Frame \<and> SetButton 0 1 \<noteq> Reset"
    by simp
  have w1: "frame_count (snd (exec_zi (SetButton 0 1) (uninit_zi\<lparr>frame_count := 7\<rparr>))) =
      frame_count (uninit_zi\<lparr>frame_count := 7\<rparr>)"
    using t c by blast
  have w2: "frame_count_fs (snd (exec_fs (SetButton 0 1) (uninit_fs\<lparr>frame_count_fs := 7\<rparr>))) =
      frame_count_fs (uninit_fs\<lparr>frame_count_fs := 7\<rparr>)"
    using t c by blast
  have w3: "unat (frame_count (frame_fz
      (uninit_fz\<lparr>initialized := 1, rom_loaded := 1, frame_count := 0xFFFFFFFF\<rparr>))) = 0"
    using t [THEN conjunct2, THEN conjunct2, THEN conjunct1] by simp
  have w4: "unat (frame_count (frame_ns (uninit_ns\<lparr>initialized := 1, frame_count := 41\<rparr>))) = 42"
    using t [THEN conjunct2, THEN conjunct1] by simp
  show ?thesis using c w1 w2 w3 w4 by simp
qed

section \<open>Loading a ROM\<close>

lemma ines_image_bytes:
  "ines_image prg chr f6 f7 0 = 0x4E" "ines_image prg chr f6 f7 1 = 0x45"
  "ines_image prg chr f6 f7 2 = 0x53" "ines_image prg chr f6 f7 3 = 0x1A"
  "ines_image prg chr f6 f7 4 = prg" "ines_image prg chr f6 f7 5 = chr"
  "ines_image prg chr f6 f7 6 = f6" "ines_image prg chr f6 f7 7 = f7"
  "ines_image prg chr f6 f7 (Suc 0) = 0x45"
  by (simp_all add: ines_image_def)

lemma loadRom_zi_frame:
  "frame_buffer (snd (loadRom_zi rom sz s)) = frame_buffer s"
  "nes_palette (snd (loadRom_zi rom sz s)) = nes_palette s"
  "controls (snd (loadRom_zi rom sz s)) = controls s"
  by (simp_all add: loadRom_zi_def Let_def)

lemma loadRom_ns_frame:
  "frame_buffer (snd (loadRom_ns rom sz s)) = frame_buffer s"
  "nes_palette (snd (loadRom_ns rom sz s)) = nes_palette s"
  "controls (snd (loadRom_ns rom sz s)) = controls s"
  by (simp_all add: loadRom_ns_def Let_def)

lemma loadRom_fz_frame:
  "frame_buffer (snd (loadRom_fz rom sz s)) = frame_buffer s"
  "nes_palette (snd (loadRom_fz rom sz s)) = nes_palette s"
  "controls (snd (loadRom_fz rom sz s)) = controls s"
  by (simp_all add: loadRom_fz_def Let_def)

lemma loadRom_fs_frame:
  "frame_buffer_fs (snd (loadRom_fs rom sz s)) = frame_buffer_fs s"
  "palette (snd (loadRom_fs rom sz s)) = palette s"
  "controls_fs (snd (loadRom_fs rom sz s)) = controls_fs s"
  by (simp_all add: loadRom_fs_def Let_def)

text \<open>
  C10. \<open>loadRom\<close>, whether it succeeds or fails, leaves the frame buffer, the palette
  table, the controls bitfield and \<open>frame_count\<close> exactly as they were. All four
  variants, every ROM memory, every size, every state.
\<close>

theorem loadRom_frame_effect:
  "frame_buffer (snd (loadRom_zi rom sz z)) = frame_buffer z \<and>
   nes_palette (snd (loadRom_zi rom sz z)) = nes_palette z \<and>
   controls (snd (loadRom_zi rom sz z)) = controls z \<and>
   frame_count (snd (loadRom_zi rom sz z)) = frame_count z \<and>
   frame_buffer (snd (loadRom_ns rom sz n)) = frame_buffer n \<and>
   nes_palette (snd (loadRom_ns rom sz n)) = nes_palette n \<and>
   controls (snd (loadRom_ns rom sz n)) = controls n \<and>
   frame_count (snd (loadRom_ns rom sz n)) = frame_count n \<and>
   frame_buffer (snd (loadRom_fz rom sz f)) = frame_buffer f \<and>
   nes_palette (snd (loadRom_fz rom sz f)) = nes_palette f \<and>
   controls (snd (loadRom_fz rom sz f)) = controls f \<and>
   frame_count (snd (loadRom_fz rom sz f)) = frame_count f \<and>
   frame_buffer_fs (snd (loadRom_fs rom sz q)) = frame_buffer_fs q \<and>
   palette (snd (loadRom_fs rom sz q)) = palette q \<and>
   controls_fs (snd (loadRom_fs rom sz q)) = controls_fs q \<and>
   frame_count_fs (snd (loadRom_fs rom sz q)) = frame_count_fs q"
  by (intro conjI loadRom_zi_frame loadRom_ns_frame loadRom_fz_frame loadRom_fs_frame
      frame_count_zi frame_count_ns frame_count_fz frame_count_fs)

theorem loadRom_frame_effect_witness:
  "fst (loadRom_fz (ines_image 1 1 0 0) 16
     (uninit_fz\<lparr>initialized := 1, controls := 5, frame_count := 9\<rparr>)) = 1 \<and>
   controls (snd (loadRom_fz (ines_image 1 1 0 0) 16
     (uninit_fz\<lparr>initialized := 1, controls := 5, frame_count := 9\<rparr>))) = 5 \<and>
   frame_count (snd (loadRom_fz (ines_image 1 1 0 0) 16
     (uninit_fz\<lparr>initialized := 1, controls := 5, frame_count := 9\<rparr>))) = 9 \<and>
   frame_buffer (snd (loadRom_fz (ines_image 1 1 0 0) 16
     (uninit_fz\<lparr>initialized := 1, controls := 5, frame_count := 9\<rparr>))) = frame_buffer uninit_fz \<and>
   fst (loadRom_zi (ines_image 0 0 0 0) 3 (uninit_zi\<lparr>initialized := 1, controls := 5\<rparr>)) = 0 \<and>
   controls (snd (loadRom_zi (ines_image 0 0 0 0) 3 (uninit_zi\<lparr>initialized := 1, controls := 5\<rparr>))) = 5"
proof -
  have r1: "fst (loadRom_fz (ines_image 1 1 0 0) 16
     (uninit_fz\<lparr>initialized := 1, controls := 5, frame_count := 9\<rparr>)) = 1"
    by (simp add: loadRom_fz_def Let_def ines_image_bytes word_sless_alt)
  have r2: "fst (loadRom_zi (ines_image 0 0 0 0) 3 (uninit_zi\<lparr>initialized := 1, controls := 5\<rparr>)) = 0"
    by (simp add: loadRom_zi_def Let_def word_sless_alt)
  show ?thesis
    using r1 r2
      loadRom_frame_effect [of "ines_image 1 1 0 0" 16 uninit_zi uninit_ns
        "uninit_fz\<lparr>initialized := 1, controls := 5, frame_count := 9\<rparr>" uninit_fs]
      loadRom_frame_effect [of "ines_image 0 0 0 0" 3 "uninit_zi\<lparr>initialized := 1, controls := 5\<rparr>"
        uninit_ns uninit_fz uninit_fs]
    by simp
qed

lemma loadRom_fz_zero_prg:
  assumes "rom 0 = 0x4E" "rom 1 = 0x45" "rom 2 = 0x53" "rom 3 = 0x1A" "rom 4 = 0"
  shows "fst (loadRom_fz rom sz s) = 0" "rom_loaded (snd (loadRom_fz rom sz s)) = rom_loaded s"
  using assms by (simp_all add: loadRom_fz_def Let_def)

lemma loadRom_fs_zero_prg:
  assumes "rom 0 = 0x4E" "rom 1 = 0x45" "rom 2 = 0x53" "rom 3 = 0x1A" "rom 4 = 0"
  shows "fst (loadRom_fs rom sz s) = 0" "rom_loaded_fs (snd (loadRom_fs rom sz s)) = rom_loaded_fs s"
  using assms by (simp_all add: loadRom_fs_def Let_def)

text \<open>
  C3, as the source has it. In \<^verbatim>\<open>fceux-simple.c\<close> and \<^verbatim>\<open>fceux-zero-imports.c\<close>, for every
  input with the iNES magic whose byte 4 (the PRG bank count) is 0, whatever the size,
  \<open>loadRom\<close> returns 0 and \<open>rom_loaded\<close> keeps the value it had: the call does not set it.
  (\<^verbatim>\<open>nes-standalone.c\<close> and \<^verbatim>\<open>zero-imports.c\<close> never read byte 4.)
\<close>

theorem loadRom_zero_prg_rejected:
  "rom 0 = 0x4E \<and> rom 1 = 0x45 \<and> rom 2 = 0x53 \<and> rom 3 = 0x1A \<and> rom 4 = 0 \<longrightarrow>
     fst (loadRom_fz rom sz f) = 0 \<and> rom_loaded (snd (loadRom_fz rom sz f)) = rom_loaded f \<and>
     fst (loadRom_fs rom sz q) = 0 \<and> rom_loaded_fs (snd (loadRom_fs rom sz q)) = rom_loaded_fs q"
proof (intro impI conjI)
  assume "rom 0 = 0x4E \<and> rom 1 = 0x45 \<and> rom 2 = 0x53 \<and> rom 3 = 0x1A \<and> rom 4 = 0"
  then have h: "rom 0 = 0x4E" "rom 1 = 0x45" "rom 2 = 0x53" "rom 3 = 0x1A" "rom 4 = 0"
    by simp_all
  show "fst (loadRom_fz rom sz f) = 0" using h by (rule loadRom_fz_zero_prg)
  show "rom_loaded (snd (loadRom_fz rom sz f)) = rom_loaded f" using h by (rule loadRom_fz_zero_prg)
  show "fst (loadRom_fs rom sz q) = 0" using h by (rule loadRom_fs_zero_prg)
  show "rom_loaded_fs (snd (loadRom_fs rom sz q)) = rom_loaded_fs q"
    using h by (rule loadRom_fs_zero_prg)
qed

theorem loadRom_zero_prg_rejected_witness:
  "ines_image 0 1 0 0 0 = 0x4E \<and> ines_image 0 1 0 0 1 = 0x45 \<and> ines_image 0 1 0 0 2 = 0x53 \<and>
   ines_image 0 1 0 0 3 = 0x1A \<and> ines_image 0 1 0 0 4 = 0 \<and>
   fst (loadRom_fz (ines_image 0 1 0 0) 8208 (snd (init_fz uninit_fz))) = 0 \<and>
   rom_loaded (snd (loadRom_fz (ines_image 0 1 0 0) 8208 (snd (init_fz uninit_fz)))) = 0 \<and>
   fst (loadRom_fs (ines_image 0 1 0 0) 8208 (snd (init_fs uninit_fs))) = 0 \<and>
   rom_loaded_fs (snd (loadRom_fs (ines_image 0 1 0 0) 8208 (snd (init_fs uninit_fs)))) = 0"
proof -
  have h: "ines_image 0 1 0 0 0 = 0x4E \<and> ines_image 0 1 0 0 1 = 0x45 \<and>
      ines_image 0 1 0 0 2 = 0x53 \<and> ines_image 0 1 0 0 3 = 0x1A \<and> ines_image 0 1 0 0 4 = 0"
    by (simp add: ines_image_bytes)
  have z: "rom_loaded (snd (init_fz uninit_fz)) = 0" "rom_loaded_fs (snd (init_fs uninit_fs)) = 0"
    by (simp_all add: init_fz_def init_fs_def Let_def init_nes_palette_def clear_frame_buffer_def
        uninit_fz_def uninit_fs_def)
  from loadRom_zero_prg_rejected [of "ines_image 0 1 0 0" 8208 "snd (init_fz uninit_fz)"
      "snd (init_fs uninit_fs)", rule_format, OF h] z h
  show ?thesis by simp
qed

text \<open>
  C3 as stated fails on \<^verbatim>\<open>nes-standalone.c\<close>: after \<open>init\<close>, a 16-byte image with the iNES
  magic and PRG bank count 0 is accepted: \<open>loadRom\<close> returns 1 and sets \<open>rom_loaded\<close>.
\<close>

theorem loadRom_ns_accepts_zero_prg:
  "ines_image 0 1 0 0 0 = 0x4E \<and> ines_image 0 1 0 0 1 = 0x45 \<and> ines_image 0 1 0 0 2 = 0x53 \<and>
   ines_image 0 1 0 0 3 = 0x1A \<and> ines_image 0 1 0 0 4 = 0 \<and>
   rom_loaded (snd (init_ns uninit_ns)) = 0 \<and>
   fst (loadRom_ns (ines_image 0 1 0 0) 16 (snd (init_ns uninit_ns))) = 1 \<and>
   rom_loaded (snd (loadRom_ns (ines_image 0 1 0 0) 16 (snd (init_ns uninit_ns)))) = 1"
  by (simp add: ines_image_bytes loadRom_ns_def init_ns_def Let_def init_palette_ns_def
      clear_frame_ns_def uninit_ns_def word_sless_alt)

lemma init_fz_scalars:
  "initialized (snd (init_fz uninit_fz)) = 1" "rom_loaded (snd (init_fz uninit_fz)) = 0"
  "mapper (snd (init_fz uninit_fz)) = 0" "has_chr_ram (snd (init_fz uninit_fz)) = 0"
  "prg_banks (snd (init_fz uninit_fz)) = 0" "chr_banks (snd (init_fz uninit_fz)) = 0"
  "running (snd (init_fz uninit_fz)) = 0" "controls (snd (init_fz uninit_fz)) = 0"
  "frame_count (snd (init_fz uninit_fz)) = 0"
  by (simp_all add: init_fz_def Let_def init_nes_palette_def clear_frame_buffer_def uninit_fz_def)

lemma init_fs_scalars:
  "initialized_fs (snd (init_fs uninit_fs)) = 1" "rom_loaded_fs (snd (init_fs uninit_fs)) = 0"
  "mapper_fs (snd (init_fs uninit_fs)) = 0" "has_chr_ram_fs (snd (init_fs uninit_fs)) = 0"
  "prg_banks_fs (snd (init_fs uninit_fs)) = 0" "chr_banks_fs (snd (init_fs uninit_fs)) = 0"
  "running_fs (snd (init_fs uninit_fs)) = 0" "controls_fs (snd (init_fs uninit_fs)) = 0"
  "frame_count_fs (snd (init_fs uninit_fs)) = 0" "has_trainer (snd (init_fs uninit_fs)) = 0"
  by (simp_all add: init_fs_def Let_def uninit_fs_def)

lemma init_ns_scalars:
  "initialized (snd (init_ns uninit_ns)) = 1" "rom_loaded (snd (init_ns uninit_ns)) = 0"
  "mapper (snd (init_ns uninit_ns)) = 0" "controls (snd (init_ns uninit_ns)) = 0"
  "frame_count (snd (init_ns uninit_ns)) = 0"
  by (simp_all add: init_ns_def Let_def init_palette_ns_def clear_frame_ns_def uninit_ns_def)

lemma loaded_fz_scalars:
  "initialized loaded_fz = 1" "rom_loaded loaded_fz = 1" "prg_banks loaded_fz = 1"
  "chr_banks loaded_fz = 1" "mapper loaded_fz = 0" "has_chr_ram loaded_fz = 0"
  "running loaded_fz = 0" "controls loaded_fz = 0" "frame_count loaded_fz = 0"
  "rom_size loaded_fz = 24592"
  by (simp_all add: loaded_fz_def loadRom_fz_def Let_def init_fz_scalars ines_image_bytes
      word_sless_alt)

lemma loaded_fs_scalars:
  "initialized_fs loaded_fs = 1" "rom_loaded_fs loaded_fs = 1" "prg_banks_fs loaded_fs = 1"
  "chr_banks_fs loaded_fs = 1" "mapper_fs loaded_fs = 0" "has_chr_ram_fs loaded_fs = 0"
  "running_fs loaded_fs = 0" "controls_fs loaded_fs = 0" "frame_count_fs loaded_fs = 0"
  "rom_size_fs loaded_fs = 24592"
  by (simp_all add: loaded_fs_def loadRom_fs_def Let_def init_fs_scalars ines_image_bytes)

text \<open>
  C2 at a failing input. After \<open>init\<close> and a successful \<open>loadRom\<close> of a mapper-0 image
  (1 PRG bank, 1 CHR bank), a second \<open>loadRom\<close> of a 16-byte image with the iNES magic,
  PRG count 0, CHR count 0 and \<open>flags6 = 0x20\<close> returns 0, yet \<open>prg_banks\<close>, \<open>chr_banks\<close>,
  \<open>mapper\<close> and \<open>has_chr_ram\<close> have been overwritten while \<open>rom_loaded\<close> still says that the
  first ROM is loaded. \<^verbatim>\<open>fceux-zero-imports.c\<close> and \<^verbatim>\<open>fceux-simple.c\<close> alike; in the
  latter the size check that follows (here a 16-byte image announcing 2 PRG banks) fails
  the same way.
\<close>

theorem loadRom_failure_overwrites_metadata:
  "fst (loadRom_fz (ines_image 0 0 0x20 0) 16 loaded_fz) = 0 \<and>
   rom_loaded loaded_fz = 1 \<and>
   rom_loaded (snd (loadRom_fz (ines_image 0 0 0x20 0) 16 loaded_fz)) = 1 \<and>
   prg_banks loaded_fz = 1 \<and>
   prg_banks (snd (loadRom_fz (ines_image 0 0 0x20 0) 16 loaded_fz)) = 0 \<and>
   chr_banks loaded_fz = 1 \<and>
   chr_banks (snd (loadRom_fz (ines_image 0 0 0x20 0) 16 loaded_fz)) = 0 \<and>
   mapper loaded_fz = 0 \<and>
   mapper (snd (loadRom_fz (ines_image 0 0 0x20 0) 16 loaded_fz)) = 2 \<and>
   has_chr_ram loaded_fz = 0 \<and>
   has_chr_ram (snd (loadRom_fz (ines_image 0 0 0x20 0) 16 loaded_fz)) = 1 \<and>
   fst (loadRom_fs (ines_image 0 0 0x20 0) 16 loaded_fs) = 0 \<and>
   rom_loaded_fs (snd (loadRom_fs (ines_image 0 0 0x20 0) 16 loaded_fs)) = 1 \<and>
   mapper_fs loaded_fs = 0 \<and>
   mapper_fs (snd (loadRom_fs (ines_image 0 0 0x20 0) 16 loaded_fs)) = 2 \<and>
   has_chr_ram_fs loaded_fs = 0 \<and>
   has_chr_ram_fs (snd (loadRom_fs (ines_image 0 0 0x20 0) 16 loaded_fs)) = 1 \<and>
   fst (loadRom_fs (ines_image 2 0 0x20 0) 16 loaded_fs) = 0 \<and>
   prg_banks_fs loaded_fs = 1 \<and>
   prg_banks_fs (snd (loadRom_fs (ines_image 2 0 0x20 0) 16 loaded_fs)) = 2 \<and>
   mapper_fs (snd (loadRom_fs (ines_image 2 0 0x20 0) 16 loaded_fs)) = 2"
  by (simp add: loadRom_fz_def loadRom_fs_def Let_def loaded_fz_scalars loaded_fs_scalars
      ines_image_bytes word_sless_alt)

theorem loadRom_failure_overwrites_metadata_witness:
  "fst (loadRom_fz (ines_image 0 0 0x20 0) 16 loaded_fz) = 0 \<and>
   snd (loadRom_fz (ines_image 0 0 0x20 0) 16 loaded_fz) \<noteq> loaded_fz \<and>
   fst (loadRom_fs (ines_image 0 0 0x20 0) 16 loaded_fs) = 0 \<and>
   snd (loadRom_fs (ines_image 0 0 0x20 0) 16 loaded_fs) \<noteq> loaded_fs \<and>
   fst (loadRom_fs (ines_image 2 0 0x20 0) 16 loaded_fs) = 0 \<and>
   snd (loadRom_fs (ines_image 2 0 0x20 0) 16 loaded_fs) \<noteq> loaded_fs"
proof -
  note t = loadRom_failure_overwrites_metadata
  have "mapper (snd (loadRom_fz (ines_image 0 0 0x20 0) 16 loaded_fz)) \<noteq> mapper loaded_fz"
    using t by simp
  then have a: "snd (loadRom_fz (ines_image 0 0 0x20 0) 16 loaded_fz) \<noteq> loaded_fz"
    by (rule contrapos_nn) simp
  have "mapper_fs (snd (loadRom_fs (ines_image 0 0 0x20 0) 16 loaded_fs)) \<noteq> mapper_fs loaded_fs"
    using t by simp
  then have b: "snd (loadRom_fs (ines_image 0 0 0x20 0) 16 loaded_fs) \<noteq> loaded_fs"
    by (rule contrapos_nn) simp
  have "mapper_fs (snd (loadRom_fs (ines_image 2 0 0x20 0) 16 loaded_fs)) \<noteq> mapper_fs loaded_fs"
    using t by simp
  then have c: "snd (loadRom_fs (ines_image 2 0 0x20 0) 16 loaded_fs) \<noteq> loaded_fs"
    by (rule contrapos_nn) simp
  from t a b c show ?thesis by blast
qed

section \<open>The gate of \<open>frame\<close>\<close>

lemma loadRom_zi_atomic: "fst (loadRom_zi rom sz s) = 0 \<Longrightarrow> snd (loadRom_zi rom sz s) = s"
  by (auto simp: loadRom_zi_def Let_def split: if_splits)

lemma loadRom_ns_atomic: "fst (loadRom_ns rom sz s) = 0 \<Longrightarrow> snd (loadRom_ns rom sz s) = s"
  by (auto simp: loadRom_ns_def Let_def split: if_splits)

lemma loadRom_fz_failure:
  assumes "fst (loadRom_fz rom sz s) = 0"
  shows "rom_loaded (snd (loadRom_fz rom sz s)) = rom_loaded s"
    and "rom_size (snd (loadRom_fz rom sz s)) = rom_size s"
    and "rom_buffer (snd (loadRom_fz rom sz s)) = rom_buffer s"
  using assms by (auto simp: loadRom_fz_def Let_def split: if_splits)

lemma loadRom_fs_failure:
  assumes "fst (loadRom_fs rom sz s) = 0"
  shows "rom_loaded_fs (snd (loadRom_fs rom sz s)) = rom_loaded_fs s"
    and "rom_size_fs (snd (loadRom_fs rom sz s)) = rom_size_fs s"
    and "rom_data (snd (loadRom_fs rom sz s)) = rom_data s"
  using assms by (auto simp: loadRom_fs_def Let_def split: if_splits)


lemma generator_frame_count:
  "frame_count (render_frame z) = frame_count z + 1"
  "frame_count (generate_frame n) = frame_count n + 1"
  "frame_count (generate_nes_frame f) = frame_count f + 1"
  by (simp_all add: render_frame_def generate_frame_def generate_nes_frame_def Let_def)

lemma frame_zi_gate:
  "initialized s \<noteq> 0 \<Longrightarrow> frame_zi s = render_frame s"
  "initialized s = 0 \<Longrightarrow> frame_zi s = s"
  by (simp_all add: frame_zi_def)

lemma frame_ns_gate:
  "initialized s \<noteq> 0 \<Longrightarrow> frame_ns s = generate_frame s"
  "initialized s = 0 \<Longrightarrow> frame_ns s = s"
  by (simp_all add: frame_ns_def)

lemma frame_fz_gate:
  "initialized s \<noteq> 0 \<and> rom_loaded s \<noteq> 0 \<Longrightarrow> frame_fz s = generate_nes_frame s"
  "initialized s = 0 \<or> rom_loaded s = 0 \<Longrightarrow> frame_fz s = s"
  by (simp_all add: frame_fz_def)

lemma frame_fs_gate:
  "initialized_fs s = 0 \<or> rom_loaded_fs s = 0 \<or> running_fs s = 0 \<Longrightarrow> frame_fs s = s"
  by (simp add: frame_fs_def)






section \<open>Alpha bytes\<close>

lemma alpha_okI: "(\<And>p. p < 61440 \<Longrightarrow> fb (p * 4 + 3) = 255) \<Longrightarrow> alpha_ok fb"
  by (simp add: alpha_ok_def)

lemma alpha_okD: "alpha_ok fb \<Longrightarrow> p < 61440 \<Longrightarrow> fb (p * 4 + 3) = 255"
  by (simp add: alpha_ok_def)

lemma alpha_ok_cleared:
  "alpha_ok (\<lambda>j. if j < 245760 then (if j mod 4 = 3 then 255 else 0) else fb j)"
  by (rule alpha_okI) (simp add: alpha_index)

lemma alpha_ok_rendered:
  "alpha_ok (\<lambda>j. if j < 245760 then channel (c j) (j mod 4) else fb j)"
  by (rule alpha_okI) (simp add: alpha_index channel_3)

lemma alpha_ok_set_alpha: "alpha_ok (set_alpha 3 fb)"
  by (rule alpha_okI) (simp add: set_alpha_3 alpha_index)

lemma alpha_reset:
  "alpha_ok (frame_buffer (reset_zi z))" "alpha_ok (frame_buffer (reset_ns n))"
  "alpha_ok (frame_buffer (reset_fz f))" "alpha_ok (frame_buffer_fs (reset_fs q))"
  by (simp_all add: reset_zi_def reset_ns_def reset_fz_def reset_fs_def Let_def
      clear_frame_zi_fb clear_frame_ns_fb clear_frame_buffer_fb alpha_ok_cleared
      alpha_ok_set_alpha)

lemma alpha_frame_zi: "initialized z \<noteq> 0 \<Longrightarrow> alpha_ok (frame_buffer (frame_zi z))"
  by (simp add: frame_zi_def render_frame_fb alpha_ok_rendered)

lemma alpha_frame_ns: "initialized n \<noteq> 0 \<Longrightarrow> alpha_ok (frame_buffer (frame_ns n))"
  by (simp add: frame_ns_def generate_frame_fb alpha_ok_rendered)

lemma alpha_frame_fz:
  "initialized f \<noteq> 0 \<Longrightarrow> rom_loaded f \<noteq> 0 \<Longrightarrow> alpha_ok (frame_buffer (frame_fz f))"
  by (simp add: frame_fz_def generate_nes_frame_fb alpha_ok_rendered)

lemma alpha_frame_fs:
  "initialized_fs q \<noteq> 0 \<Longrightarrow> rom_loaded_fs q \<noteq> 0 \<Longrightarrow> running_fs q \<noteq> 0 \<Longrightarrow>
   alpha_ok (frame_buffer_fs (frame_fs q))"
  by (simp add: frame_fs_fb alpha_ok_rendered)

lemma alpha_init_fresh:
  "initialized z = 0 \<Longrightarrow> alpha_ok (frame_buffer (snd (init_zi z)))"
  "initialized n = 0 \<Longrightarrow> alpha_ok (frame_buffer (snd (init_ns n)))"
  "initialized f = 0 \<Longrightarrow> alpha_ok (frame_buffer (snd (init_fz f)))"
  "initialized_fs q = 0 \<Longrightarrow> alpha_ok (frame_buffer_fs (snd (init_fs q)))"
  by (simp_all add: init_zi_def init_ns_def init_fz_def init_fs_def Let_def
      clear_frame_zi_fb clear_frame_ns_fb clear_frame_buffer_fb alpha_ok_cleared
      alpha_ok_set_alpha)


lemma initialized_kept_zi:
  "initialized (snd (loadRom_zi rom sz s)) = initialized s"
  "initialized (frame_zi s) = initialized s"
  "initialized (setButton_zi b p s) = initialized s"
  "initialized (setRunning_zi r s) = initialized s"
  "frame_buffer (setButton_zi b p s) = frame_buffer s"
  "frame_buffer (setRunning_zi r s) = frame_buffer s"
  by (simp_all add: loadRom_zi_def frame_zi_def render_frame_def setButton_zi_def
      setRunning_zi_def Let_def)

lemma initialized_kept_ns:
  "initialized (snd (loadRom_ns rom sz s)) = initialized s"
  "initialized (frame_ns s) = initialized s"
  "initialized (setButton_ns b p s) = initialized s"
  "initialized (setRunning_ns r s) = initialized s"
  "frame_buffer (setButton_ns b p s) = frame_buffer s"
  "frame_buffer (setRunning_ns r s) = frame_buffer s"
  by (simp_all add: loadRom_ns_def frame_ns_def generate_frame_def setButton_ns_def
      setRunning_ns_def Let_def)

lemma initialized_kept_fz:
  "initialized (snd (loadRom_fz rom sz s)) = initialized s"
  "initialized (frame_fz s) = initialized s"
  "initialized (setButton_fz b p s) = initialized s"
  "initialized (setRunning_fz r s) = initialized s"
  "frame_buffer (setButton_fz b p s) = frame_buffer s"
  "frame_buffer (setRunning_fz r s) = frame_buffer s"
  by (simp_all add: loadRom_fz_def frame_fz_def generate_nes_frame_def setButton_fz_def
      setRunning_fz_def Let_def)

lemma initialized_kept_fs:
  "initialized_fs (snd (loadRom_fs rom sz s)) = initialized_fs s"
  "initialized_fs (frame_fs s) = initialized_fs s"
  "initialized_fs (setButton_fs b p s) = initialized_fs s"
  "initialized_fs (setRunning_fs r s) = initialized_fs s"
  "frame_buffer_fs (setButton_fs b p s) = frame_buffer_fs s"
  "frame_buffer_fs (setRunning_fs r s) = frame_buffer_fs s"
  by (simp_all add: loadRom_fs_def frame_fs_def setButton_fs_def setRunning_fs_def Let_def)

lemma alpha_step_zi:
  assumes "initialized s \<noteq> 0 \<longrightarrow> alpha_ok (frame_buffer s)"
  shows "initialized (snd (exec_zi c s)) \<noteq> 0 \<longrightarrow> alpha_ok (frame_buffer (snd (exec_zi c s)))"
proof (cases c)
  case Init
  then show ?thesis
    using assms by (cases "initialized s = 0") (simp_all add: alpha_init_fresh init_zi_done split_beta)
next
  case Frame
  show ?thesis
  proof (cases "initialized s = 0")
    case True
    with assms Frame show ?thesis by (simp add: frame_zi_gate(2))
  next
    case False
    with Frame show ?thesis by (simp add: alpha_frame_zi)
  qed
qed (use assms in \<open>simp_all add: split_beta alpha_reset initialized_kept_zi loadRom_zi_frame\<close>)

lemma alpha_step_ns:
  assumes "initialized s \<noteq> 0 \<longrightarrow> alpha_ok (frame_buffer s)"
  shows "initialized (snd (exec_ns c s)) \<noteq> 0 \<longrightarrow> alpha_ok (frame_buffer (snd (exec_ns c s)))"
proof (cases c)
  case Init
  then show ?thesis
    using assms by (cases "initialized s = 0") (simp_all add: alpha_init_fresh init_ns_done split_beta)
next
  case Frame
  show ?thesis
  proof (cases "initialized s = 0")
    case True
    with assms Frame show ?thesis by (simp add: frame_ns_gate(2))
  next
    case False
    with Frame show ?thesis by (simp add: alpha_frame_ns)
  qed
qed (use assms in \<open>simp_all add: split_beta alpha_reset initialized_kept_ns loadRom_ns_frame\<close>)

lemma alpha_step_fz:
  assumes "initialized s \<noteq> 0 \<longrightarrow> alpha_ok (frame_buffer s)"
  shows "initialized (snd (exec_fz c s)) \<noteq> 0 \<longrightarrow> alpha_ok (frame_buffer (snd (exec_fz c s)))"
proof (cases c)
  case Init
  then show ?thesis
    using assms by (cases "initialized s = 0") (simp_all add: alpha_init_fresh init_fz_done split_beta)
next
  case Frame
  show ?thesis
  proof (cases "initialized s = 0 \<or> rom_loaded s = 0")
    case True
    then have "frame_fz s = s" by (rule frame_fz_gate)
    with assms Frame show ?thesis by simp
  next
    case False
    with Frame show ?thesis by (simp add: alpha_frame_fz)
  qed
qed (use assms in \<open>simp_all add: split_beta alpha_reset initialized_kept_fz loadRom_fz_frame\<close>)

lemma alpha_step_fs:
  assumes "initialized_fs s \<noteq> 0 \<longrightarrow> alpha_ok (frame_buffer_fs s)"
  shows "initialized_fs (snd (exec_fs c s)) \<noteq> 0 \<longrightarrow>
         alpha_ok (frame_buffer_fs (snd (exec_fs c s)))"
proof (cases c)
  case Init
  then show ?thesis
    using assms
    by (cases "initialized_fs s = 0") (simp_all add: alpha_init_fresh init_fs_done split_beta)
next
  case Frame
  show ?thesis
  proof (cases "initialized_fs s = 0 \<or> rom_loaded_fs s = 0 \<or> running_fs s = 0")
    case True
    then have "frame_fs s = s" by (rule frame_fs_gate)
    with assms Frame show ?thesis by simp
  next
    case False
    with Frame show ?thesis by (simp add: alpha_frame_fs)
  qed
qed (use assms in \<open>simp_all add: split_beta alpha_reset initialized_kept_fs loadRom_fs_frame\<close>)

lemma reachable_alpha_zi:
  "reachable_zi s \<Longrightarrow> initialized s \<noteq> 0 \<longrightarrow> alpha_ok (frame_buffer s)"
  by (induction rule: reachable_zi.induct) (simp_all add: uninit_zi_def alpha_step_zi)

lemma reachable_alpha_ns:
  "reachable_ns s \<Longrightarrow> initialized s \<noteq> 0 \<longrightarrow> alpha_ok (frame_buffer s)"
  by (induction rule: reachable_ns.induct) (simp_all add: uninit_ns_def alpha_step_ns)

lemma reachable_alpha_fz:
  "reachable_fz s \<Longrightarrow> initialized s \<noteq> 0 \<longrightarrow> alpha_ok (frame_buffer s)"
  by (induction rule: reachable_fz.induct) (simp_all add: uninit_fz_def alpha_step_fz)

lemma reachable_alpha_fs:
  "reachable_fs s \<Longrightarrow> initialized_fs s \<noteq> 0 \<longrightarrow> alpha_ok (frame_buffer_fs s)"
  by (induction rule: reachable_fs.induct) (simp_all add: uninit_fs_def alpha_step_fs)

lemma alpha_init_zi: "reachable_zi s \<Longrightarrow> alpha_ok (frame_buffer (snd (init_zi s)))"
  using reachable_alpha_zi [of s]
  by (cases "initialized s = 0") (simp_all add: alpha_init_fresh init_zi_done)

lemma alpha_init_ns: "reachable_ns s \<Longrightarrow> alpha_ok (frame_buffer (snd (init_ns s)))"
  using reachable_alpha_ns [of s]
  by (cases "initialized s = 0") (simp_all add: alpha_init_fresh init_ns_done)

lemma alpha_init_fz: "reachable_fz s \<Longrightarrow> alpha_ok (frame_buffer (snd (init_fz s)))"
  using reachable_alpha_fz [of s]
  by (cases "initialized s = 0") (simp_all add: alpha_init_fresh init_fz_done)

lemma alpha_init_fs: "reachable_fs s \<Longrightarrow> alpha_ok (frame_buffer_fs (snd (init_fs s)))"
  using reachable_alpha_fs [of s]
  by (cases "initialized_fs s = 0") (simp_all add: alpha_init_fresh init_fs_done)


text \<open>
  C5. For every pixel index \<open>p\<close> in \<open>[0, 61440)\<close> the alpha byte \<open>frame_buffer[p*4 + 3]\<close>
  is 255 right after \<open>init\<close> returns (in any state the host can reach from the
  zero-initialised module, whether \<open>init\<close> ran or found the module initialised), right
  after \<open>reset\<close> returns (in any state), and right after every \<open>frame()\<close> call that its
  variant permits to render. All four variants.
\<close>

theorem alpha_always_opaque:
  "p < 61440 \<longrightarrow>
     (reachable_zi z \<longrightarrow> frame_buffer (snd (init_zi z)) (p * 4 + 3) = 255) \<and>
     frame_buffer (reset_zi z) (p * 4 + 3) = 255 \<and>
     (initialized z \<noteq> 0 \<longrightarrow> frame_buffer (frame_zi z) (p * 4 + 3) = 255) \<and>
     (reachable_ns n \<longrightarrow> frame_buffer (snd (init_ns n)) (p * 4 + 3) = 255) \<and>
     frame_buffer (reset_ns n) (p * 4 + 3) = 255 \<and>
     (initialized n \<noteq> 0 \<longrightarrow> frame_buffer (frame_ns n) (p * 4 + 3) = 255) \<and>
     (reachable_fz f \<longrightarrow> frame_buffer (snd (init_fz f)) (p * 4 + 3) = 255) \<and>
     frame_buffer (reset_fz f) (p * 4 + 3) = 255 \<and>
     (initialized f \<noteq> 0 \<and> rom_loaded f \<noteq> 0 \<longrightarrow>
        frame_buffer (frame_fz f) (p * 4 + 3) = 255) \<and>
     (reachable_fs q \<longrightarrow> frame_buffer_fs (snd (init_fs q)) (p * 4 + 3) = 255) \<and>
     frame_buffer_fs (reset_fs q) (p * 4 + 3) = 255 \<and>
     (initialized_fs q \<noteq> 0 \<and> rom_loaded_fs q \<noteq> 0 \<and> running_fs q \<noteq> 0 \<longrightarrow>
        frame_buffer_fs (frame_fs q) (p * 4 + 3) = 255)"
proof (intro impI conjI)
  assume p: "p < 61440"
  show "frame_buffer (reset_zi z) (p * 4 + 3) = 255"
    using alpha_reset(1) p by (rule alpha_okD)
  show "frame_buffer (reset_ns n) (p * 4 + 3) = 255"
    using alpha_reset(2) p by (rule alpha_okD)
  show "frame_buffer (reset_fz f) (p * 4 + 3) = 255"
    using alpha_reset(3) p by (rule alpha_okD)
  show "frame_buffer_fs (reset_fs q) (p * 4 + 3) = 255"
    using alpha_reset(4) p by (rule alpha_okD)
  show "frame_buffer (snd (init_zi z)) (p * 4 + 3) = 255" if "reachable_zi z"
    using alpha_init_zi [OF that] p by (rule alpha_okD)
  show "frame_buffer (snd (init_ns n)) (p * 4 + 3) = 255" if "reachable_ns n"
    using alpha_init_ns [OF that] p by (rule alpha_okD)
  show "frame_buffer (snd (init_fz f)) (p * 4 + 3) = 255" if "reachable_fz f"
    using alpha_init_fz [OF that] p by (rule alpha_okD)
  show "frame_buffer_fs (snd (init_fs q)) (p * 4 + 3) = 255" if "reachable_fs q"
    using alpha_init_fs [OF that] p by (rule alpha_okD)
  show "frame_buffer (frame_zi z) (p * 4 + 3) = 255" if "initialized z \<noteq> 0"
    using alpha_frame_zi [OF that] p by (rule alpha_okD)
  show "frame_buffer (frame_ns n) (p * 4 + 3) = 255" if "initialized n \<noteq> 0"
    using alpha_frame_ns [OF that] p by (rule alpha_okD)
  show "frame_buffer (frame_fz f) (p * 4 + 3) = 255"
    if "initialized f \<noteq> 0 \<and> rom_loaded f \<noteq> 0"
    using alpha_frame_fz [of f] that p by (simp add: alpha_okD)
  show "frame_buffer_fs (frame_fs q) (p * 4 + 3) = 255"
    if "initialized_fs q \<noteq> 0 \<and> rom_loaded_fs q \<noteq> 0 \<and> running_fs q \<noteq> 0"
    using alpha_frame_fs [of q] that p by (simp add: alpha_okD)
qed

theorem alpha_always_opaque_witness:
  "(61439 :: nat) < 61440 \<and> reachable_zi uninit_zi \<and>
   frame_buffer (snd (init_zi uninit_zi)) 245759 = 255 \<and>
   reachable_fs (snd (exec_fs Init uninit_fs)) \<and>
   frame_buffer_fs (snd (init_fs (snd (exec_fs Init uninit_fs)))) 245759 = 255 \<and>
   frame_buffer (reset_ns uninit_ns) 245759 = 255 \<and>
   initialized loaded_fz \<noteq> 0 \<and> rom_loaded loaded_fz \<noteq> 0 \<and>
   frame_buffer (frame_fz loaded_fz) 245759 = 255"
proof -
  note t = alpha_always_opaque [of 61439 uninit_zi uninit_ns loaded_fz
      "snd (exec_fs Init uninit_fs)", rule_format]
  have r1: "reachable_zi uninit_zi" by (rule start_zi)
  have r2: "reachable_fs (snd (exec_fs Init uninit_fs))" by (rule step_fs) (rule start_fs)
  have g: "initialized loaded_fz \<noteq> 0 \<and> rom_loaded loaded_fz \<noteq> 0"
    by (simp add: loaded_fz_scalars)
  have p: "(61439 :: nat) < 61440" by simp
  from t [OF p] r1 have "frame_buffer (snd (init_zi uninit_zi)) (61439 * 4 + 3) = 255" by blast
  moreover from t [OF p] r2
  have "frame_buffer_fs (snd (init_fs (snd (exec_fs Init uninit_fs)))) (61439 * 4 + 3) = 255"
    by blast
  moreover from t [OF p] have "frame_buffer (reset_ns uninit_ns) (61439 * 4 + 3) = 255" by blast
  moreover from t [OF p] g have "frame_buffer (frame_fz loaded_fz) (61439 * 4 + 3) = 255" by blast
  ultimately show ?thesis using r1 r2 g by simp
qed

section \<open>Pixels of the palette-driven renderers\<close>

lemma and255: "(w :: u32) AND 255 = take_bit 8 w"
  using take_bit_eq_mask [of 8 w] by (simp add: mask_eq_exp_minus_1)

lemma and63: "(w :: u32) AND 63 = take_bit 6 w"
  using take_bit_eq_mask [of 6 w] by (simp add: mask_eq_exp_minus_1)

lemma ucast_take8: "(ucast (take_bit 8 (w :: u32)) :: u8) = ucast w"
  by (rule bit_word_eqI) (auto simp: bit_simps)

lemma ucast_up_down: "(ucast (ucast (r :: u8) :: u32) :: u8) = r"
  by (rule bit_word_eqI) (auto simp: bit_simps)

lemma ucast_add_down: "(ucast ((a :: u32) + b) :: u8) = ucast a + ucast b"
proof -
  have "(word_of_int (uint (a + b)) :: u8) = word_of_int (uint a + uint b)"
    unfolding uint_word_ariths word_of_int_eq_iff
    by (simp add: take_bit_eq_mod mod_mod_cancel)
  then show ?thesis by (simp add: wi_hom_syms)
qed

lemma ucast_sub_down: "(ucast ((a :: u32) - b) :: u8) = ucast a - ucast b"
proof -
  have "(word_of_int (uint (a - b)) :: u8) = word_of_int (uint a - uint b)"
    unfolding uint_word_ariths word_of_int_eq_iff
    by (simp add: take_bit_eq_mod mod_mod_cancel)
  then show ?thesis by (simp add: wi_hom_syms)
qed

lemma channel_add: "(ucast (((ucast (r :: u8) :: u32) + k) AND 255) :: u8) = r + ucast k"
  by (simp only: and255 ucast_take8 ucast_add_down ucast_up_down)

lemma channel_sub: "(ucast (((ucast (r :: u8) :: u32) - k) AND 255) :: u8) = r - ucast k"
  by (simp only: and255 ucast_take8 ucast_sub_down ucast_up_down)

lemma test_bit:
  "((w :: u32) AND 1 \<noteq> 0) = bit w 0" "(w AND 2 \<noteq> 0) = bit w 1" "(w AND 4 \<noteq> 0) = bit w 2"
  "(w AND 8 \<noteq> 0) = bit w 3" "(w AND 64 \<noteq> 0) = bit w 6" "(w AND 128 \<noteq> 0) = bit w 7"
  using and_exp_eq_0_iff_not_bit [of w 0] and_exp_eq_0_iff_not_bit [of w 1]
    and_exp_eq_0_iff_not_bit [of w 2] and_exp_eq_0_iff_not_bit [of w 3]
    and_exp_eq_0_iff_not_bit [of w 6] and_exp_eq_0_iff_not_bit [of w 7]
  by simp_all

lemma controller_effects_modulation: "controller_effects ctl c = modulation ctl c"
  by (cases c)
     (simp add: controller_effects_def modulation_def Let_def channel_add channel_sub test_bit)

lemma unat_and63: "unat ((w :: u32) AND 63) = unat w mod 64"
  by (simp add: and63 take_bit_eq_mod unat_mod)

lemma palette_index:
  "unat ((((of_nat (x div 8) :: u32) + of_nat (y div 8)) + fc div 4) AND 63) =
     scheme_P_index x y (unat fc)"
proof -
  have "unat (((of_nat (x div 8) :: u32) + of_nat (y div 8)) + fc div 4) =
      (x div 8 + y div 8 + unat fc div 4) mod 2 ^ 32"
    by (simp add: unat_word_ariths unsigned_of_nat take_bit_eq_mod mod_simps unat_div)
  then show ?thesis
    by (simp add: unat_and63 mod_mod_cancel scheme_P_index_def drop_bit_eq_div)
qed

lemma palette_index_u8:
  "unat (ucast ((((of_nat (x div 8) :: u32) + of_nat (y div 8)) + fc div 4) AND 0x3F) :: u8) =
     scheme_P_index x y (unat fc)"
proof -
  have "unat (ucast ((w :: u32) AND 0x3F) :: u8) = unat (w AND 0x3F)" for w
  proof -
    have "unat (w AND 63) < 64"
      by (simp add: unat_and63)
    then show ?thesis by (simp add: unsigned_ucast_eq take_bit_nat_eq_self)
  qed
  then show ?thesis by (simp only: palette_index)
qed

lemma overlay_test: "x < 256 \<Longrightarrow> y < 240 \<Longrightarrow>
  (((of_nat x + of_nat y) :: u32) AND 8 \<noteq> 0) = bit (x + y) 3"
proof -
  have "((of_nat x + of_nat y) :: u32) = of_nat (x + y)" by simp
  then show ?thesis by (simp only: test_bit bit_of_nat_iff) simp
qed

lemma pixel_ns_scheme_P:
  "pixel_ns pal fc ctl x y = scheme_P pal (unat fc) ctl False x y"
  by (simp add: pixel_ns_def scheme_P_def Let_def palette_index controller_effects_modulation
      overlay_def split_beta)

lemma pixel_fz_scheme_P:
  "x < 256 \<Longrightarrow> y < 240 \<Longrightarrow>
   pixel_fz pal fc ctl mp chr x y = scheme_P pal (unat fc) ctl (mp = 2 \<and> chr \<noteq> 0) x y"
  by (simp add: pixel_fz_def scheme_P_def Let_def palette_index_u8 controller_effects_modulation
      overlay_def split_beta channel_add overlay_test)

lemma pixel_offset:
  assumes "(x :: nat) < 256" "(y :: nat) < 240" "(k :: nat) < 4"
  shows "(y * 256 + x) * 4 + k < 245760"
    and "((y * 256 + x) * 4 + k) div 4 mod 256 = x"
    and "((y * 256 + x) * 4 + k) div 1024 = y"
    and "((y * 256 + x) * 4 + k) mod 4 = k"
proof -
  define a where "a = y * 256 + x"
  have lt: "a * 4 + k < 245760" unfolding a_def using assms by simp
  have d4: "(a * 4 + k) div 4 = a" using assms by simp
  have m4: "(a * 4 + k) mod 4 = k" using assms by simp
  have xy: "a mod 256 = x" "a div 256 = y" unfolding a_def using assms by simp_all
  have "(a * 4 + k) div 1024 = (a * 4 + k) div 4 div 256"
    by (simp only: div_mult2_eq [symmetric]) simp
  then have d1024: "(a * 4 + k) div 1024 = y" by (simp only: d4 xy)
  show "(y * 256 + x) * 4 + k < 245760" using lt by (simp only: a_def)
  show "((y * 256 + x) * 4 + k) div 4 mod 256 = x" using d4 xy by (simp only: a_def)
  show "((y * 256 + x) * 4 + k) div 1024 = y" using d1024 by (simp only: a_def)
  show "((y * 256 + x) * 4 + k) mod 4 = k" using m4 by (simp only: a_def)
qed

lemma channels:
  "(channel c 0, channel c 1, channel c 2) = c"
  by (simp add: channel_def)

lemma generate_nes_frame_pixel:
  assumes "x < 256" "y < 240" "k < 4"
  shows "frame_buffer (generate_nes_frame s) ((y * 256 + x) * 4 + k) =
     channel (scheme_P (nes_palette s) (unat (frame_count s + 1)) (controls s)
                (mapper s = 2 \<and> has_chr_ram s \<noteq> 0) x y) k"
  using assms
  by (simp only: generate_nes_frame_fb pixel_offset pixel_fz_scheme_P if_True)

lemma generate_frame_pixel:
  assumes "x < 256" "y < 240" "k < 4"
  shows "frame_buffer (generate_frame s) ((y * 256 + x) * 4 + k) =
     channel (scheme_P (nes_palette s) (unat (frame_count s + 1)) (controls s) False x y) k"
  using assms
  by (simp only: generate_frame_fb pixel_offset pixel_ns_scheme_P if_True)

lemma palette_init_ns:
  "nes_palette (init_palette_ns s) =
     (\<lambda>j. if j < 4 * 64
           then (if j mod 4 = 0 then fst (colors ! (j div 4))
                 else if j mod 4 = 1 then fst (snd (colors ! (j div 4)))
                 else if j mod 4 = 2 then snd (snd (colors ! (j div 4))) else 255)
           else nes_palette s j)"
  unfolding init_palette_ns_def for_upto_write4 by simp

lemma palette_init_fz:
  "nes_palette (init_nes_palette s) =
     (\<lambda>j. if j < 4 * 64
           then (if j mod 4 = 0 then fst (palette_data ! (j div 4))
                 else if j mod 4 = 1 then fst (snd (palette_data ! (j div 4)))
                 else if j mod 4 = 2 then snd (snd (palette_data ! (j div 4))) else 255)
           else nes_palette s j)"
  unfolding init_nes_palette_def for_upto_write4 by simp

lemma unrom_ns_scalars:
  "initialized unrom_ns = 1" "rom_loaded unrom_ns = 1" "mapper unrom_ns = 2"
  "controls unrom_ns = 0" "frame_count unrom_ns = 0" "rom_buffer unrom_ns 5 = 0"
  by (simp_all add: unrom_ns_def loadRom_ns_def Let_def init_ns_scalars ines_image_bytes
      word_sless_alt copy_memory_eq)

lemma unrom_fz_scalars:
  "initialized unrom_fz = 1" "rom_loaded unrom_fz = 1" "mapper unrom_fz = 2"
  "has_chr_ram unrom_fz = 1" "controls unrom_fz = 0" "frame_count unrom_fz = 0"
  by (simp_all add: unrom_fz_def loadRom_fz_def Let_def init_fz_scalars ines_image_bytes
      word_sless_alt)

lemma unrom_ns_palette:
  "nes_palette unrom_ns 0 = 84" "nes_palette unrom_ns 1 = 84" "nes_palette unrom_ns 2 = 84"
  "nes_palette unrom_ns 4 = 0" "nes_palette unrom_ns 5 = 30" "nes_palette unrom_ns 6 = 116"
  by (simp_all add: unrom_ns_def loadRom_ns_frame init_ns_def Let_def uninit_ns_def
      clear_frame_ns_def palette_init_ns colors_def)

lemma unrom_fz_palette:
  "nes_palette unrom_fz 0 = 84" "nes_palette unrom_fz 1 = 84" "nes_palette unrom_fz 2 = 84"
  "nes_palette unrom_fz 4 = 0" "nes_palette unrom_fz 5 = 30" "nes_palette unrom_fz 6 = 116"
  "nes_palette unrom_fz 8 = 8" "nes_palette unrom_fz 9 = 16" "nes_palette unrom_fz 10 = 144"
  by (simp_all add: unrom_fz_def loadRom_fz_frame init_fz_def Let_def uninit_fz_def
      clear_frame_buffer_def palette_init_fz palette_data_def)


lemma frame_fz_pixel:
  assumes "x < 256" "y < 240" "initialized f \<noteq> 0" "rom_loaded f \<noteq> 0"
  shows "(frame_buffer (frame_fz f) ((y * 256 + x) * 4 + 0),
          frame_buffer (frame_fz f) ((y * 256 + x) * 4 + 1),
          frame_buffer (frame_fz f) ((y * 256 + x) * 4 + 2)) =
         scheme_P (nes_palette f) (unat (frame_count (frame_fz f))) (controls f)
           (mapper f = 2 \<and> has_chr_ram f \<noteq> 0) x y"
    and "frame_buffer (frame_fz f) ((y * 256 + x) * 4 + 3) = 255"
proof -
  have g: "frame_fz f = generate_nes_frame f"
    using assms by (simp add: frame_fz_gate)
  show "(frame_buffer (frame_fz f) ((y * 256 + x) * 4 + 0),
          frame_buffer (frame_fz f) ((y * 256 + x) * 4 + 1),
          frame_buffer (frame_fz f) ((y * 256 + x) * 4 + 2)) =
         scheme_P (nes_palette f) (unat (frame_count (frame_fz f))) (controls f)
           (mapper f = 2 \<and> has_chr_ram f \<noteq> 0) x y"
    unfolding g using assms(1,2)
    by (simp only: generate_nes_frame_pixel generator_frame_count channels)
  show "frame_buffer (frame_fz f) ((y * 256 + x) * 4 + 3) = 255"
    unfolding g using assms(1,2) by (simp only: generate_nes_frame_pixel channel_3)
qed

lemma frame_ns_pixel:
  assumes "x < 256" "y < 240" "initialized n \<noteq> 0"
  shows "(frame_buffer (frame_ns n) ((y * 256 + x) * 4 + 0),
          frame_buffer (frame_ns n) ((y * 256 + x) * 4 + 1),
          frame_buffer (frame_ns n) ((y * 256 + x) * 4 + 2)) =
         scheme_P (nes_palette n) (unat (frame_count (frame_ns n))) (controls n) False x y"
    and "frame_buffer (frame_ns n) ((y * 256 + x) * 4 + 3) = 255"
proof -
  have g: "frame_ns n = generate_frame n"
    using assms by (simp add: frame_ns_gate)
  show "(frame_buffer (frame_ns n) ((y * 256 + x) * 4 + 0),
          frame_buffer (frame_ns n) ((y * 256 + x) * 4 + 1),
          frame_buffer (frame_ns n) ((y * 256 + x) * 4 + 2)) =
         scheme_P (nes_palette n) (unat (frame_count (frame_ns n))) (controls n) False x y"
    unfolding g using assms(1,2)
    by (simp only: generate_frame_pixel generator_frame_count channels)
  show "frame_buffer (frame_ns n) ((y * 256 + x) * 4 + 3) = 255"
    unfolding g using assms(1,2) by (simp only: generate_frame_pixel channel_3)
qed

text \<open>
  C4, as the source has it. For every pixel \<open>(x, y)\<close> with \<open>x < 256\<close> and \<open>y < 240\<close> that a
  permitted \<open>frame()\<close> call writes at offset \<open>(y*256 + x)*4\<close>, with \<open>frame_count\<close> the
  counter as the call leaves it: in \<^verbatim>\<open>fceux-zero-imports.c\<close> the RGB bytes are those of
  scheme P (palette entry \<open>((x >> 3) + (y >> 3) + (frame_count >> 2)) mod 64\<close>, the
  controller modulation modulo 256, and 32 more on red and blue exactly when
  \<open>mapper == 2\<close>, \<open>has_chr_ram\<close> and \<open>((x + y) & 8) != 0\<close>) and alpha is 255; in
  \<^verbatim>\<open>nes-standalone.c\<close> the palette entry and the modulation are the same and no overlay is
  ever added.
\<close>

theorem scheme_P_pixels:
  "x < 256 \<and> y < 240 \<longrightarrow>
     (initialized f \<noteq> 0 \<and> rom_loaded f \<noteq> 0 \<longrightarrow>
        (frame_buffer (frame_fz f) ((y * 256 + x) * 4 + 0),
         frame_buffer (frame_fz f) ((y * 256 + x) * 4 + 1),
         frame_buffer (frame_fz f) ((y * 256 + x) * 4 + 2)) =
        scheme_P (nes_palette f) (unat (frame_count (frame_fz f))) (controls f)
          (mapper f = 2 \<and> has_chr_ram f \<noteq> 0) x y \<and>
        frame_buffer (frame_fz f) ((y * 256 + x) * 4 + 3) = 255) \<and>
     (initialized n \<noteq> 0 \<longrightarrow>
        (frame_buffer (frame_ns n) ((y * 256 + x) * 4 + 0),
         frame_buffer (frame_ns n) ((y * 256 + x) * 4 + 1),
         frame_buffer (frame_ns n) ((y * 256 + x) * 4 + 2)) =
        scheme_P (nes_palette n) (unat (frame_count (frame_ns n))) (controls n) False x y \<and>
        frame_buffer (frame_ns n) ((y * 256 + x) * 4 + 3) = 255)"
proof (intro impI conjI)
  assume "x < 256 \<and> y < 240"
  then have xy: "x < 256" "y < 240" by simp_all
  {
    assume "initialized f \<noteq> 0 \<and> rom_loaded f \<noteq> 0"
    then have g: "initialized f \<noteq> 0" "rom_loaded f \<noteq> 0" by simp_all
    show "(frame_buffer (frame_fz f) ((y * 256 + x) * 4 + 0),
           frame_buffer (frame_fz f) ((y * 256 + x) * 4 + 1),
           frame_buffer (frame_fz f) ((y * 256 + x) * 4 + 2)) =
          scheme_P (nes_palette f) (unat (frame_count (frame_fz f))) (controls f)
            (mapper f = 2 \<and> has_chr_ram f \<noteq> 0) x y"
      using xy g by (rule frame_fz_pixel)
    show "frame_buffer (frame_fz f) ((y * 256 + x) * 4 + 3) = 255"
      using xy g by (rule frame_fz_pixel)
  }
  {
    assume g: "initialized n \<noteq> 0"
    show "(frame_buffer (frame_ns n) ((y * 256 + x) * 4 + 0),
           frame_buffer (frame_ns n) ((y * 256 + x) * 4 + 1),
           frame_buffer (frame_ns n) ((y * 256 + x) * 4 + 2)) =
          scheme_P (nes_palette n) (unat (frame_count (frame_ns n))) (controls n) False x y"
      using xy g by (rule frame_ns_pixel)
    show "frame_buffer (frame_ns n) ((y * 256 + x) * 4 + 3) = 255"
      using xy g by (rule frame_ns_pixel)
  }
qed

lemma scheme_P_example:
  assumes "fc < 4"
  shows "scheme_P (nes_palette unrom_fz) fc 0 True 8 0 = (32, 30, 148)"
    and "scheme_P (nes_palette unrom_fz) fc 0 True 16 0 = (8, 16, 144)"
    and "scheme_P (nes_palette unrom_ns) fc 0 False 8 0 = (0, 30, 116)"
    and "scheme_P (nes_palette unrom_ns) fc 0 True 8 0 = (32, 30, 148)"
  using assms
  by (simp_all add: scheme_P_def scheme_P_index_def modulation_def overlay_def Let_def
      unrom_fz_palette unrom_ns_palette drop_bit_eq_div bit_iff_odd)

theorem scheme_P_pixels_witness:
  "(8 :: nat) < 256 \<and> (16 :: nat) < 256 \<and> (0 :: nat) < 240 \<and>
   initialized unrom_fz \<noteq> 0 \<and> rom_loaded unrom_fz \<noteq> 0 \<and>
   mapper unrom_fz = 2 \<and> has_chr_ram unrom_fz \<noteq> 0 \<and>
   frame_buffer (frame_fz unrom_fz) 32 = 32 \<and> frame_buffer (frame_fz unrom_fz) 33 = 30 \<and>
   frame_buffer (frame_fz unrom_fz) 34 = 148 \<and> frame_buffer (frame_fz unrom_fz) 35 = 255 \<and>
   frame_buffer (frame_fz unrom_fz) 64 = 8 \<and> frame_buffer (frame_fz unrom_fz) 65 = 16 \<and>
   frame_buffer (frame_fz unrom_fz) 66 = 144"
proof -
  have h: "(8 :: nat) < 256 \<and> (0 :: nat) < 240" "(16 :: nat) < 256 \<and> (0 :: nat) < 240"
    "initialized unrom_fz \<noteq> 0 \<and> rom_loaded unrom_fz \<noteq> 0"
    by (simp_all add: unrom_fz_scalars)
  have fc: "unat (frame_count (frame_fz unrom_fz)) = 1"
    by (simp add: frame_count_fz unrom_fz_scalars)
  note a = scheme_P_pixels [of 8 0 unrom_fz unrom_ns, rule_format, OF h(1), THEN conjunct1,
      rule_format, OF h(3)]
  note b = scheme_P_pixels [of 16 0 unrom_fz unrom_ns, rule_format, OF h(2), THEN conjunct1,
      rule_format, OF h(3)]
  have a': "(frame_buffer (frame_fz unrom_fz) ((0 * 256 + 8) * 4 + 0),
      frame_buffer (frame_fz unrom_fz) ((0 * 256 + 8) * 4 + 1),
      frame_buffer (frame_fz unrom_fz) ((0 * 256 + 8) * 4 + 2)) = (32, 30, 148)"
    using a [THEN conjunct1] by (simp add: fc unrom_fz_scalars scheme_P_example)
  have b': "(frame_buffer (frame_fz unrom_fz) ((0 * 256 + 16) * 4 + 0),
      frame_buffer (frame_fz unrom_fz) ((0 * 256 + 16) * 4 + 1),
      frame_buffer (frame_fz unrom_fz) ((0 * 256 + 16) * 4 + 2)) = (8, 16, 144)"
    using b [THEN conjunct1] by (simp add: fc unrom_fz_scalars scheme_P_example)
  from a' b' a [THEN conjunct2] show ?thesis
    by (simp add: unrom_fz_scalars)
qed

text \<open>
  C4 as stated fails on \<^verbatim>\<open>nes-standalone.c\<close>. After \<open>init\<close> and \<open>loadRom\<close> of a mapper-2
  image whose header reports zero CHR banks (CHR-RAM), \<open>frame()\<close> renders pixel \<open>(8, 0)\<close>,
  for which \<open>((x + y) & 8) != 0\<close>, as palette entry 1 unchanged, \<open>(0, 30, 116)\<close>; with the
  overlay of the claim it would be \<open>(32, 30, 148)\<close>.
\<close>

theorem generate_frame_no_overlay:
  "initialized unrom_ns \<noteq> 0 \<and> rom_loaded unrom_ns \<noteq> 0 \<and> mapper unrom_ns = 2 \<and>
   rom_buffer unrom_ns 5 = 0 \<and> bit (8 + 0 :: nat) 3 \<and>
   frame_count (frame_ns unrom_ns) = 1 \<and>
   frame_buffer (frame_ns unrom_ns) 32 = 0 \<and> frame_buffer (frame_ns unrom_ns) 33 = 30 \<and>
   frame_buffer (frame_ns unrom_ns) 34 = 116 \<and>
   scheme_P (nes_palette unrom_ns) 1 (controls unrom_ns) True 8 0 = (32, 30, 148)"
proof -
  have fc: "frame_count (frame_ns unrom_ns) = 1"
    by (simp add: frame_count_ns unrom_ns_scalars)
  have "(frame_buffer (frame_ns unrom_ns) ((0 * 256 + 8) * 4 + 0),
         frame_buffer (frame_ns unrom_ns) ((0 * 256 + 8) * 4 + 1),
         frame_buffer (frame_ns unrom_ns) ((0 * 256 + 8) * 4 + 2)) =
        scheme_P (nes_palette unrom_ns) (unat (frame_count (frame_ns unrom_ns)))
          (controls unrom_ns) False 8 0"
    by (rule frame_ns_pixel) (simp_all add: unrom_ns_scalars)
  then have "(frame_buffer (frame_ns unrom_ns) ((0 * 256 + 8) * 4 + 0),
         frame_buffer (frame_ns unrom_ns) ((0 * 256 + 8) * 4 + 1),
         frame_buffer (frame_ns unrom_ns) ((0 * 256 + 8) * 4 + 2)) = (0, 30, 116)"
    by (simp add: fc unrom_ns_scalars scheme_P_example)
  moreover have "scheme_P (nes_palette unrom_ns) 1 (controls unrom_ns) True 8 0 = (32, 30, 148)"
    by (simp add: unrom_ns_scalars scheme_P_example)
  ultimately show ?thesis
    by (simp add: fc unrom_ns_scalars bit_iff_odd)
qed

section \<open>Determinism\<close>

lemma signed_size: "\<not> (sz :: u32) <s 16 \<Longrightarrow> 16 \<le> unat sz"
proof -
  assume "\<not> sz <s 16"
  then have lo: "16 \<le> sint sz" by (simp add: word_sless_alt)
  have hi: "sint sz < 2 ^ 31" using sint_lt [of sz] by simp
  have "uint sz = sint sz mod 2 ^ 32"
    using uint_word_of_int [of "sint sz", where ?'a = 32] by simp
  then have "uint sz = sint sz" using lo hi by simp
  with lo show ?thesis by (simp add: unat_eq_nat_uint)
qed

lemma unsigned_size: "\<not> (sz :: u32) < 16 \<Longrightarrow> 16 \<le> unat sz"
  by (simp add: word_less_nat_alt)

lemma agree_copy:
  assumes "\<forall>i \<in> {0..<n :: nat}. r1 i = r2 i"
  shows "(\<lambda>j. if j < n then r1 j else d j) = (\<lambda>j. if j < n then r2 j else d j)"
proof (rule ext)
  fix j
  show "(if j < n then r1 j else d j) = (if j < n then r2 j else d j)"
  proof (cases "j < n")
    case True
    then have "j \<in> {0..<n}" by simp
    with assms have "r1 j = r2 j" by (rule bspec)
    with True show ?thesis by simp
  next
    case False
    then show ?thesis by simp
  qed
qed

lemma agree_header:
  assumes "\<forall>i \<in> {0..<n}. (r1 :: bytes) i = r2 i" "16 \<le> n"
  shows "r1 0 = r2 0" "r1 1 = r2 1" "r1 2 = r2 2" "r1 3 = r2 3" "r1 4 = r2 4" "r1 5 = r2 5"
    "r1 6 = r2 6" "r1 7 = r2 7"
  using assms by simp_all

lemma loadRom_zi_cong:
  assumes "\<forall>i \<in> {0..<unat sz}. r1 i = r2 i"
  shows "loadRom_zi r1 sz s = loadRom_zi r2 sz s"
proof (cases "initialized s = 0 \<or> sz <s 16 \<or> 2097152 < sz")
  case True
  then show ?thesis by (simp add: loadRom_zi_def)
next
  case False
  then have "16 \<le> unat sz" by (simp add: signed_size)
  note h = agree_header [OF assms this]
  show ?thesis
    unfolding loadRom_zi_def copy_mem_eq h agree_copy [OF assms] ..
qed

lemma loadRom_ns_cong:
  assumes "\<forall>i \<in> {0..<unat sz}. r1 i = r2 i"
  shows "loadRom_ns r1 sz s = loadRom_ns r2 sz s"
proof (cases "initialized s = 0 \<or> sz <s 16 \<or> 2097152 < sz")
  case True
  then show ?thesis by (simp add: loadRom_ns_def)
next
  case False
  then have "16 \<le> unat sz" by (simp add: signed_size)
  note h = agree_header [OF assms this]
  show ?thesis
    unfolding loadRom_ns_def copy_memory_eq h agree_copy [OF assms] ..
qed

lemma loadRom_fz_cong:
  assumes "\<forall>i \<in> {0..<unat sz}. r1 i = r2 i"
  shows "loadRom_fz r1 sz s = loadRom_fz r2 sz s"
proof (cases "sz <s 16")
  case True
  then show ?thesis by (simp add: loadRom_fz_def)
next
  case False
  then have "16 \<le> unat sz" by (simp add: signed_size)
  note h = agree_header [OF assms this]
  show ?thesis
    unfolding loadRom_fz_def my_memcpy_eq h agree_copy [OF assms] ..
qed

lemma loadRom_fs_cong:
  assumes "\<forall>i \<in> {0..<unat sz}. r1 i = r2 i"
  shows "loadRom_fs r1 sz s = loadRom_fs r2 sz s"
proof (cases "sz < 16")
  case True
  then show ?thesis by (simp add: loadRom_fs_def)
next
  case False
  then have "16 \<le> unat sz" by (simp add: unsigned_size)
  note h = agree_header [OF assms this]
  show ?thesis
    unfolding loadRom_fs_def memcpy_def h agree_copy [OF assms] ..
qed

lemma exec_cong:
  assumes "same_call c1 c2"
  shows "exec_zi c1 z = exec_zi c2 z" "exec_ns c1 n = exec_ns c2 n"
    "exec_fz c1 f = exec_fz c2 f" "exec_fs c1 q = exec_fs c2 q"
proof -
  show "exec_zi c1 z = exec_zi c2 z"
  proof (cases c1)
    case (LoadRom r1 sz1)
    with assms obtain r2 where c2: "c2 = LoadRom r2 sz1" and "\<forall>i \<in> {0..<unat sz1}. r1 i = r2 i"
      by (cases c2) simp_all
    then have "loadRom_zi r1 sz1 z = loadRom_zi r2 sz1 z" by (intro loadRom_zi_cong)
    then show ?thesis by (simp add: LoadRom c2)
  qed (use assms in \<open>cases c2; simp\<close>)+
  show "exec_ns c1 n = exec_ns c2 n"
  proof (cases c1)
    case (LoadRom r1 sz1)
    with assms obtain r2 where c2: "c2 = LoadRom r2 sz1" and "\<forall>i \<in> {0..<unat sz1}. r1 i = r2 i"
      by (cases c2) simp_all
    then have "loadRom_ns r1 sz1 n = loadRom_ns r2 sz1 n" by (intro loadRom_ns_cong)
    then show ?thesis by (simp add: LoadRom c2)
  qed (use assms in \<open>cases c2; simp\<close>)+
  show "exec_fz c1 f = exec_fz c2 f"
  proof (cases c1)
    case (LoadRom r1 sz1)
    with assms obtain r2 where c2: "c2 = LoadRom r2 sz1" and "\<forall>i \<in> {0..<unat sz1}. r1 i = r2 i"
      by (cases c2) simp_all
    then have "loadRom_fz r1 sz1 f = loadRom_fz r2 sz1 f" by (intro loadRom_fz_cong)
    then show ?thesis by (simp add: LoadRom c2)
  qed (use assms in \<open>cases c2; simp\<close>)+
  show "exec_fs c1 q = exec_fs c2 q"
  proof (cases c1)
    case (LoadRom r1 sz1)
    with assms obtain r2 where c2: "c2 = LoadRom r2 sz1" and "\<forall>i \<in> {0..<unat sz1}. r1 i = r2 i"
      by (cases c2) simp_all
    then have "loadRom_fs r1 sz1 q = loadRom_fs r2 sz1 q" by (intro loadRom_fs_cong)
    then show ?thesis by (simp add: LoadRom c2)
  qed (use assms in \<open>cases c2; simp\<close>)+
qed

lemma run_cong:
  assumes "\<And>c1 c2 s. same_call c1 c2 \<Longrightarrow> exec c1 s = exec c2 s"
  shows "list_all2 same_call cs1 cs2 \<Longrightarrow> run exec cs1 s = run exec cs2 s"
proof (induction cs1 cs2 arbitrary: s rule: list_all2_induct)
  case Nil
  show ?case by simp
next
  case (Cons c1 cs1 c2 cs2)
  then show ?case by (simp add: assms [OF Cons.hyps(1)])
qed


text \<open>
  C7. The module is deterministic. Two host sessions that start from the zero-initialised
  module and make the same calls with the same arguments, the ROM memories passed to
  \<open>loadRom\<close> agreeing on the \<open>size\<close> bytes handed over (and free to differ beyond them),
  get the same results from every call and end in the same state: the frame buffers are
  bytewise identical and so are all scalars. All four variants.
\<close>

theorem deterministic:
  "list_all2 same_call cs1 cs2 \<longrightarrow>
     run exec_zi cs1 uninit_zi = run exec_zi cs2 uninit_zi \<and>
     run exec_ns cs1 uninit_ns = run exec_ns cs2 uninit_ns \<and>
     run exec_fz cs1 uninit_fz = run exec_fz cs2 uninit_fz \<and>
     run exec_fs cs1 uninit_fs = run exec_fs cs2 uninit_fs"
proof (intro impI conjI)
  assume same: "list_all2 same_call cs1 cs2"
  show "run exec_zi cs1 uninit_zi = run exec_zi cs2 uninit_zi"
    using exec_cong(1) same by (rule run_cong)
  show "run exec_ns cs1 uninit_ns = run exec_ns cs2 uninit_ns"
    using exec_cong(2) same by (rule run_cong)
  show "run exec_fz cs1 uninit_fz = run exec_fz cs2 uninit_fz"
    using exec_cong(3) same by (rule run_cong)
  show "run exec_fs cs1 uninit_fs = run exec_fs cs2 uninit_fs"
    using exec_cong(4) same by (rule run_cong)
qed

theorem deterministic_witness:
  "list_all2 same_call
     [Init, LoadRom (ines_image 1 1 0 0) 16, SetButton 0 1, Frame]
     [Init, LoadRom (\<lambda>i. if i < 16 then ines_image 1 1 0 0 i else 7) 16, SetButton 0 1, Frame] \<and>
   ines_image 1 1 0 0 16 \<noteq> (\<lambda>i. if i < 16 then ines_image 1 1 0 0 i else 7) 16 \<and>
   run exec_fz [Init, LoadRom (ines_image 1 1 0 0) 16, SetButton 0 1, Frame] uninit_fz =
   run exec_fz
     [Init, LoadRom (\<lambda>i. if i < 16 then ines_image 1 1 0 0 i else 7) 16, SetButton 0 1, Frame]
     uninit_fz \<and>
   frame_buffer (snd (run exec_zi
     [Init, LoadRom (ines_image 1 1 0 0) 16, SetButton 0 1, Frame] uninit_zi)) =
   frame_buffer (snd (run exec_zi
     [Init, LoadRom (\<lambda>i. if i < 16 then ines_image 1 1 0 0 i else 7) 16, SetButton 0 1, Frame]
     uninit_zi))"
proof -
  have same: "list_all2 same_call
     [Init, LoadRom (ines_image 1 1 0 0) 16, SetButton 0 1, Frame]
     [Init, LoadRom (\<lambda>i. if i < 16 then ines_image 1 1 0 0 i else 7) 16, SetButton 0 1, Frame]"
    by simp
  have differ: "ines_image 1 1 0 0 16 \<noteq> (\<lambda>i. if i < 16 then ines_image 1 1 0 0 i else 7) 16"
    by (simp add: ines_image_def)
  note t = deterministic [rule_format, OF same]
  from t have "frame_buffer (snd (run exec_zi
     [Init, LoadRom (ines_image 1 1 0 0) 16, SetButton 0 1, Frame] uninit_zi)) =
   frame_buffer (snd (run exec_zi
     [Init, LoadRom (\<lambda>i. if i < 16 then ines_image 1 1 0 0 i else 7) 16, SetButton 0 1, Frame]
     uninit_zi))"
    by (elim conjE) (erule arg_cong)
  with same differ t show ?thesis by blast
qed

end
